theory Spec2Isabelle
  imports Main "HOL-Library.AList"
begin

section \<open>Python strings and lists\<close>

text \<open>
  \<^verbatim>\<open>s.split(c)\<close> for a one-character separator: the result is never empty, and a
  string without the separator is returned whole.
\<close>

fun split_chr :: "char \<Rightarrow> string \<Rightarrow> string list" where
  "split_chr c [] = [[]]"
| "split_chr c (x # xs) =
     (let r = split_chr c xs
      in if x = c then [] # r else (x # hd r) # tl r)"

text \<open>\<^verbatim>\<open>sep.join(parts)\<close>.\<close>

fun join :: "string \<Rightarrow> string list \<Rightarrow> string" where
  "join sep [] = []"
| "join sep [p] = p"
| "join sep (p # q # ps) = p @ sep @ join sep (q # ps)"

text \<open>\<^verbatim>\<open>s.replace(a, b)\<close> for one-character \<open>a\<close> and \<open>b\<close>.\<close>

definition replace_chr :: "char \<Rightarrow> char \<Rightarrow> string \<Rightarrow> string" where
  "replace_chr a b s = map (\<lambda>x. if x = a then b else x) s"

section \<open>Exceptions\<close>

text \<open>
  The exceptions the puller can raise. \<open>SystemExit\<close> is what \<^verbatim>\<open>exit(n)\<close> and
  \<^verbatim>\<open>sys.exit(n)\<close> raise; it is not an \<^verbatim>\<open>Exception\<close>, so the handler of
  \<^verbatim>\<open>main\<close> lets it through. \<open>TransportError\<close> stands for whatever
  \<^verbatim>\<open>requests.get\<close> itself raises (no connection, bad URL): none of these is an
  \<open>HTTPError\<close>, which only \<^verbatim>\<open>raise_for_status\<close> raises.
\<close>

datatype exc =
    SystemExit int
  | ValueError
  | KeyError
  | IndexError
  | TypeError
  | AttributeError
  | JSONDecodeError
  | HTTPError
  | TransportError
  | FileExistsError
  | OSError

section \<open>The puller object\<close>

record puller =
  image_reference :: string
  registry :: string
  repo :: string
  tag :: string
  img :: string
  auth_url :: string
  reg_service :: string
  image_dir :: string

definition init_puller :: "string \<Rightarrow> puller" where
  "init_puller image_ref =
     \<lparr> image_reference = image_ref,
       registry = ''registry-1.docker.io'',
       repo = ''library'',
       tag = ''latest'',
       img = '''',
       auth_url = ''https://auth.docker.io/token'',
       reg_service = ''registry.docker.io'',
       image_dir = '''' \<rparr>"

section \<open>Reference parsing\<close>

text \<open>
  The tuple assignment \<^verbatim>\<open>self.img, self.tag = last_part.split(sep)\<close> raises
  \<open>ValueError\<close> unless the split has exactly two parts; nothing is assigned then.
\<close>

definition unpack2 :: "string list \<Rightarrow> exc + (string \<times> string)" where
  "unpack2 ps = (case ps of [a, b] \<Rightarrow> Inr (a, b) | _ \<Rightarrow> Inl ValueError)"

definition parse_last_part :: "puller \<Rightarrow> string \<Rightarrow> exc + puller" where
  "parse_last_part self last_part =
     (if CHR ''@'' \<in> set last_part then
        (case unpack2 (split_chr CHR ''@'' last_part) of
           Inl e \<Rightarrow> Inl e
         | Inr (i, t) \<Rightarrow> Inr (self\<lparr>img := i, tag := t\<rparr>))
      else if CHR '':'' \<in> set last_part then
        (case unpack2 (split_chr CHR '':'' last_part) of
           Inl e \<Rightarrow> Inl e
         | Inr (i, t) \<Rightarrow> Inr (self\<lparr>img := i, tag := t\<rparr>))
      else Inr (self\<lparr>img := last_part\<rparr>))"

definition parse_image_reference :: "puller \<Rightarrow> exc + puller" where
  "parse_image_reference self =
     (let parts = split_chr CHR ''/'' (image_reference self)
      in case parse_last_part self (last parts) of
           Inl e \<Rightarrow> Inl e
         | Inr self1 \<Rightarrow>
             if length parts > 1 \<and> (CHR ''.'' \<in> set (hd parts) \<or> CHR '':'' \<in> set (hd parts))
             then Inr (self1\<lparr>registry := hd parts, repo := join ''/'' (butlast (tl parts))\<rparr>)
             else if butlast parts \<noteq> []
             then Inr (self1\<lparr>repo := join ''/'' (butlast parts)\<rparr>)
             else Inr self1)"

section \<open>Names derived from the parsed reference\<close>

definition manifest_url :: "puller \<Rightarrow> string" where
  "manifest_url self =
     ''https://'' @ registry self @ ''/v2/'' @ repo self @ ''/'' @ img self
       @ ''/manifests/'' @ tag self"

definition blob_url :: "puller \<Rightarrow> string \<Rightarrow> string" where
  "blob_url self blob_digest =
     ''https://'' @ registry self @ ''/v2/'' @ repo self @ ''/'' @ img self
       @ ''/blobs/'' @ blob_digest"

definition repo_tag :: "puller \<Rightarrow> string" where
  "repo_tag self =
     (if repo self \<noteq> ''library'' then repo self @ ''/'' @ img self @ '':'' @ tag self
      else img self @ '':'' @ tag self)"

definition tar_name :: "puller \<Rightarrow> string" where
  "tar_name self = replace_chr CHR ''/'' CHR ''_'' (repo self) @ ''_'' @ img self @ ''.tar''"

section \<open>JSON values and byte strings\<close>

text \<open>
  A decoded JSON document. A Python \<^verbatim>\<open>dict\<close> keeps its keys in insertion
  order, so an object is an association list (with distinct keys): \<open>AList.update\<close> is
  \<^verbatim>\<open>d[k] = v\<close> (a present key keeps its place, a new one goes last) and
  \<open>AList.delete\<close> is \<^verbatim>\<open>d.pop(k, None)\<close>. Numbers are integers here; the
  puller reads none.
\<close>

datatype json =
    JNull
  | JBool bool
  | JNum int
  | JStr string
  | JArr "json list"
  | JObj "(string \<times> json) list"

text \<open>
  The bodies of responses and files. The JSON, gzip and tar codecs are library code, so a
  body is kept as what the codec makes of it: \<open>JsonText j\<close> is the text that
  \<^verbatim>\<open>json.dumps\<close> writes for \<open>j\<close> and \<^verbatim>\<open>json.loads\<close> reads back as
  \<open>j\<close>, \<open>Gzip b\<close> is the compressed form of \<open>b\<close>, \<open>Tar fs\<close> is an archive
  of the members \<open>fs\<close>, and \<open>Plain s\<close> is any other text.
\<close>

datatype bytes =
    Plain string
  | JsonText json
  | Gzip bytes
  | Tar "(string \<times> bytes) list"

definition json_loads :: "bytes \<Rightarrow> exc + json" where
  "json_loads b = (case b of JsonText j \<Rightarrow> Inr j | _ \<Rightarrow> Inl JSONDecodeError)"

definition json_dumps :: "json \<Rightarrow> bytes" where
  "json_dumps j = JsonText j"

definition gunzip :: "bytes \<Rightarrow> exc + bytes" where
  "gunzip b = (case b of Gzip c \<Rightarrow> Inr c | _ \<Rightarrow> Inl OSError)"

text \<open>\<^verbatim>\<open>j[k]\<close> for a string key \<open>k\<close>.\<close>

definition subscript :: "json \<Rightarrow> string \<Rightarrow> exc + json" where
  "subscript j k =
     (case j of
        JObj kvs \<Rightarrow> (case map_of kvs k of None \<Rightarrow> Inl KeyError | Some v \<Rightarrow> Inr v)
      | _ \<Rightarrow> Inl TypeError)"

text \<open>\<^verbatim>\<open>j.items()\<close>.\<close>

definition items :: "json \<Rightarrow> exc + (string \<times> json) list" where
  "items j = (case j of JObj kvs \<Rightarrow> Inr kvs | _ \<Rightarrow> Inl AttributeError)"

text \<open>
  \<^verbatim>\<open>for x in j\<close>: a list gives its elements, a dict its keys, a string its
  characters; nothing else is iterable.
\<close>

definition py_iter :: "json \<Rightarrow> exc + json list" where
  "py_iter j =
     (case j of
        JArr xs \<Rightarrow> Inr xs
      | JObj kvs \<Rightarrow> Inr (map (\<lambda>kv. JStr (fst kv)) kvs)
      | JStr s \<Rightarrow> Inr (map (\<lambda>c. JStr [c]) s)
      | _ \<Rightarrow> Inl TypeError)"

text \<open>
  \<^verbatim>\<open>j.pop(k, None)\<close>: only a dict has this method; a list has a \<^verbatim>\<open>pop\<close> that
  rejects the second argument.
\<close>

definition py_pop :: "string \<Rightarrow> json \<Rightarrow> exc + json" where
  "py_pop k j =
     (case j of
        JObj kvs \<Rightarrow> Inr (JObj (AList.delete k kvs))
      | JArr xs \<Rightarrow> Inl TypeError
      | _ \<Rightarrow> Inl AttributeError)"

text \<open>\<^verbatim>\<open>j[k] = v\<close> for a string key \<open>k\<close>.\<close>

definition py_setitem :: "string \<Rightarrow> json \<Rightarrow> json \<Rightarrow> exc + json" where
  "py_setitem k v j =
     (case j of
        JObj kvs \<Rightarrow> Inr (JObj (AList.update k v kvs))
      | _ \<Rightarrow> Inl TypeError)"

text \<open>Decimal text of a number, as \<^verbatim>\<open>str\<close> gives it.\<close>

fun str_nat :: "nat \<Rightarrow> string" where
  "str_nat n =
     (if n < 10 then [char_of (48 + n)]
      else str_nat (n div 10) @ [char_of (48 + n mod 10)])"

declare str_nat.simps [simp del]

definition str_int :: "int \<Rightarrow> string" where
  "str_int i = (if i < 0 then ''-'' @ str_nat (nat (- i)) else str_nat (nat i))"

text \<open>
  \<^verbatim>\<open>os.path.join(a, b)\<close>: an absolute \<open>b\<close> replaces \<open>a\<close>, and no separator is
  added after an empty \<open>a\<close> or one that already ends with it.
\<close>

definition path_join :: "string \<Rightarrow> string \<Rightarrow> string" where
  "path_join a b =
     (if b \<noteq> [] \<and> hd b = CHR ''/'' then b
      else if a = [] \<or> last a = CHR ''/'' then a @ b
      else a @ ''/'' @ b)"

section \<open>The environment and the world\<close>

record request =
  url :: string
  headers :: "(string \<times> string) list"

text \<open>
  Of a response's headers the puller reads \<^verbatim>\<open>WWW-Authenticate\<close> and
  \<^verbatim>\<open>content-length\<close>; \<open>None\<close> is an absent header.
\<close>

record response =
  status_code :: int
  www_authenticate :: "string option"
  content_length :: "string option"
  content :: bytes

text \<open>
  What the program takes from outside itself: the hash function
  \<^verbatim>\<open>hashlib.sha256(...).hexdigest()\<close>, Python's \<^verbatim>\<open>str\<close> of a decoded JSON
  value that is not a string, Python's \<^verbatim>\<open>int\<close> of a string (\<open>None\<close> where it
  raises \<open>ValueError\<close>), and the network: the answer to the \<open>n\<close>-th request of the
  run (\<open>None\<close> where \<^verbatim>\<open>requests.get\<close> raises).
\<close>

record env =
  sha256_hex :: "string \<Rightarrow> string"
  py_str :: "json \<Rightarrow> string"
  py_int :: "string \<Rightarrow> int option"
  net :: "nat \<Rightarrow> request \<Rightarrow> response option"

text \<open>A value inside an f-string: a string as it is, anything else through \<^verbatim>\<open>str\<close>.\<close>

definition fmt :: "env \<Rightarrow> json \<Rightarrow> string" where
  "fmt E j = (case j of JStr s \<Rightarrow> s | _ \<Rightarrow> py_str E j)"

text \<open>A line on standard output: a text, or the \<^verbatim>\<open>repr\<close> of a byte string.\<close>

datatype printed = Line string | BytesRepr bytes

text \<open>
  The world the run changes: the requests sent so far, the lines printed, the exceptions
  whose message went to standard error, and the file system (directories and files by
  path).
\<close>

record world =
  requests_log :: "request list"
  stdout :: "printed list"
  stderr :: "exc list"
  dirs :: "string list"
  files :: "(string \<times> bytes) list"

type_synonym 'a io = "world \<Rightarrow> (exc + 'a) \<times> world"

definition ret :: "'a \<Rightarrow> 'a io" where
  "ret x = (\<lambda>w. (Inr x, w))"

definition raise :: "exc \<Rightarrow> 'a io" where
  "raise e = (\<lambda>w. (Inl e, w))"

definition lift :: "exc + 'a \<Rightarrow> 'a io" where
  "lift r = (\<lambda>w. (r, w))"

definition bind_io :: "'a io \<Rightarrow> ('a \<Rightarrow> 'b io) \<Rightarrow> 'b io" where
  "bind_io m f =
     (\<lambda>w. case m w of
             (Inl e, w') \<Rightarrow> (Inl e, w')
           | (Inr x, w') \<Rightarrow> f x w')"

text \<open>\<^verbatim>\<open>try: m except requests.exceptions.HTTPError: h\<close>.\<close>

definition catch_http :: "'a io \<Rightarrow> 'a io \<Rightarrow> 'a io" where
  "catch_http m h =
     (\<lambda>w. case m w of
             (Inl HTTPError, w') \<Rightarrow> h w'
           | r \<Rightarrow> r)"

definition print :: "string \<Rightarrow> unit io" where
  "print s = (\<lambda>w. (Inr (), w\<lparr>stdout := stdout w @ [Line s]\<rparr>))"

definition print_bytes :: "bytes \<Rightarrow> unit io" where
  "print_bytes b = (\<lambda>w. (Inr (), w\<lparr>stdout := stdout w @ [BytesRepr b]\<rparr>))"

definition http_get :: "env \<Rightarrow> request \<Rightarrow> response io" where
  "http_get E req =
     (\<lambda>w. let w' = w\<lparr>requests_log := requests_log w @ [req]\<rparr>
          in case net E (length (requests_log w)) req of
               None \<Rightarrow> (Inl TransportError, w')
             | Some resp \<Rightarrow> (Inr resp, w'))"

subsection \<open>Files\<close>

text \<open>
  Writing and reading succeed on the staging tree, whose directories the run has made;
  the directories are kept for \<^verbatim>\<open>os.mkdir\<close>, which refuses an existing path.
\<close>

definition path_exists :: "world \<Rightarrow> string \<Rightarrow> bool" where
  "path_exists w p = (p \<in> set (dirs w) \<or> p \<in> fst ` set (files w))"

definition mkdir :: "string \<Rightarrow> unit io" where
  "mkdir p =
     (\<lambda>w. if path_exists w p then (Inl FileExistsError, w)
          else (Inr (), w\<lparr>dirs := dirs w @ [p]\<rparr>))"

definition write_file :: "string \<Rightarrow> bytes \<Rightarrow> unit io" where
  "write_file p b = (\<lambda>w. (Inr (), w\<lparr>files := AList.update p b (files w)\<rparr>))"

definition read_file :: "string \<Rightarrow> bytes io" where
  "read_file p =
     (\<lambda>w. case map_of (files w) p of
             None \<Rightarrow> (Inl OSError, w)
           | Some b \<Rightarrow> (Inr b, w))"

definition remove_file :: "string \<Rightarrow> unit io" where
  "remove_file p =
     (\<lambda>w. if p \<in> fst ` set (files w) then (Inr (), w\<lparr>files := AList.delete p (files w)\<rparr>)
          else (Inl OSError, w))"

definition under :: "string \<Rightarrow> string \<Rightarrow> bool" where
  "under d p = (p = d \<or> take (Suc (length d)) p = d @ ''/'')"

text \<open>\<^verbatim>\<open>shutil.rmtree(d)\<close>: the directory with all below it; a file is refused.\<close>

definition rmtree :: "string \<Rightarrow> unit io" where
  "rmtree d =
     (\<lambda>w. if d \<in> set (dirs w)
          then (Inr (), w\<lparr>dirs := filter (\<lambda>p. \<not> under d p) (dirs w),
                          files := filter (\<lambda>kv. \<not> under d (fst kv)) (files w)\<rparr>)
          else (Inl OSError, w))"

section \<open>Authentication\<close>

definition get_auth_endpoint :: "env \<Rightarrow> puller \<Rightarrow> puller io" where
  "get_auth_endpoint E self =
     bind_io (http_get E \<lparr>url = ''https://'' @ registry self @ ''/v2/'', headers = []\<rparr>)
       (\<lambda>resp.
          if status_code resp = 401 then
            (case www_authenticate resp of
               None \<Rightarrow> raise KeyError
             | Some h \<Rightarrow>
                 (let ps = split_chr (CHR 0x22) h
                  in if length ps \<le> 1 then raise IndexError
                     else ret (self\<lparr>auth_url := ps ! 1,
                                     reg_service := (if length ps \<le> 3 then [] else ps ! 3)\<rparr>)))
          else ret self)"

definition token_url :: "puller \<Rightarrow> string" where
  "token_url self =
     auth_url self @ ''?service='' @ reg_service self
       @ ''&scope=repository:'' @ repo self @ ''/'' @ img self @ '':pull''"

definition get_auth_token :: "env \<Rightarrow> puller \<Rightarrow> string \<Rightarrow> (string \<times> string) list io" where
  "get_auth_token E self content_type =
     bind_io (http_get E \<lparr>url = token_url self, headers = []\<rparr>)
       (\<lambda>resp. bind_io (lift (json_loads (content resp)))
       (\<lambda>j. bind_io (lift (subscript j ''token''))
       (\<lambda>access_token.
          ret [(''Authorization'', ''Bearer '' @ fmt E access_token),
               (''Accept'', content_type)])))"

definition manifest_v2 :: string where
  "manifest_v2 = ''application/vnd.docker.distribution.manifest.v2+json''"

definition manifest_list_v2 :: string where
  "manifest_list_v2 = ''application/vnd.docker.distribution.manifest.list.v2+json''"

section \<open>Downloads\<close>

text \<open>\<^verbatim>\<open>response.raise_for_status()\<close>: a status from 400 to 599 raises.\<close>

definition raise_for_status :: "response \<Rightarrow> unit io" where
  "raise_for_status resp =
     (if 400 \<le> status_code resp \<and> status_code resp < 600 then raise HTTPError else ret ())"

definition download_with_progress ::
    "env \<Rightarrow> puller \<Rightarrow> string \<Rightarrow> string \<Rightarrow> string \<Rightarrow> unit io" where
  "download_with_progress E self u file_path description =
     bind_io (get_auth_token E self manifest_v2)
       (\<lambda>hdrs. bind_io (http_get E \<lparr>url = u, headers = hdrs\<rparr>)
       (\<lambda>resp. bind_io (raise_for_status resp)
       (\<lambda>_. bind_io (case content_length resp of
                        None \<Rightarrow> ret 0
                      | Some s \<Rightarrow> (case py_int E s of None \<Rightarrow> raise ValueError | Some n \<Rightarrow> ret n))
       (\<lambda>total_size. bind_io (print (description @ '' total '' @ str_int total_size @ '' B''))
       (\<lambda>_. write_file file_path (content resp))))))"

section \<open>The manifest\<close>

definition print_manifest :: "env \<Rightarrow> json \<Rightarrow> unit io" where
  "print_manifest E manifest =
     bind_io (lift (subscript manifest ''platform''))
       (\<lambda>platform. bind_io (lift (items platform))
       (\<lambda>kvs. bind_io (lift (subscript manifest ''digest''))
       (\<lambda>d. print (join '', '' (map (\<lambda>kv. fst kv @ '': '' @ fmt E (snd kv)) kvs)
                      @ '', digest: '' @ fmt E d))))"

fun print_manifests :: "env \<Rightarrow> json list \<Rightarrow> unit io" where
  "print_manifests E [] = ret ()"
| "print_manifests E (m # ms) = bind_io (print_manifest E m) (\<lambda>_. print_manifests E ms)"

text \<open>
  The body of \<^verbatim>\<open>if response.status_code == 200\<close> in
  \<^verbatim>\<open>handle_manifest_error\<close>: the platforms and digests of a manifest list.
\<close>

definition list_manifests :: "env \<Rightarrow> response \<Rightarrow> unit io" where
  "list_manifests E resp =
     bind_io (print (''[+] Manifests found for this tag ''
                       @ ''(use the @digest format to pull the corresponding image):''))
       (\<lambda>_. bind_io (lift (json_loads (content resp)))
       (\<lambda>j. bind_io (lift (subscript j ''manifests''))
       (\<lambda>manifests. bind_io (lift (py_iter manifests))
       (\<lambda>ms. print_manifests E ms))))"

definition handle_manifest_error :: "env \<Rightarrow> puller \<Rightarrow> response \<Rightarrow> unit io" where
  "handle_manifest_error E self response0 =
     bind_io (print (''[-] Cannot fetch manifest for '' @ repo self @ ''/'' @ img self
                       @ '' [HTTP '' @ str_int (status_code response0) @ '']''))
       (\<lambda>_. bind_io (print_bytes (content response0))
       (\<lambda>_. bind_io (get_auth_token E self manifest_list_v2)
       (\<lambda>hdrs. bind_io (http_get E \<lparr>url = manifest_url self, headers = hdrs\<rparr>)
       (\<lambda>resp. bind_io (if status_code resp = 200 then list_manifests E resp else ret ())
       (\<lambda>_. raise (SystemExit 1))))))"

definition fetch_manifest :: "env \<Rightarrow> puller \<Rightarrow> json io" where
  "fetch_manifest E self =
     bind_io (get_auth_token E self manifest_v2)
       (\<lambda>hdrs. bind_io (http_get E \<lparr>url = manifest_url self, headers = hdrs\<rparr>)
       (\<lambda>resp. bind_io (if status_code resp \<noteq> 200 then handle_manifest_error E self resp
                        else ret ())
       (\<lambda>_. lift (json_loads (content resp)))))"

section \<open>The staging directory and the config\<close>

definition create_image_directory :: "puller \<Rightarrow> puller io" where
  "create_image_directory self =
     (let d = ''tmp_'' @ img self @ ''_'' @ replace_chr CHR '':'' CHR ''@'' (tag self)
      in (\<lambda>w. bind_io (if path_exists w d then rmtree d else ret ())
               (\<lambda>_. bind_io (mkdir d)
               (\<lambda>_. bind_io (print (''Creating image structure in: '' @ d))
               (\<lambda>_. ret (self\<lparr>image_dir := d\<rparr>)))) w))"

definition download_config :: "env \<Rightarrow> puller \<Rightarrow> string \<Rightarrow> string io" where
  "download_config E self config_digest =
     (let config_file = image_dir self @ ''/'' @ drop 7 config_digest @ ''.json''
      in bind_io (get_auth_token E self manifest_v2)
           (\<lambda>hdrs. bind_io (http_get E \<lparr>url = blob_url self config_digest, headers = hdrs\<rparr>)
           (\<lambda>resp. bind_io (write_file config_file (content resp))
           (\<lambda>_. ret config_file))))"

section \<open>Layers\<close>

text \<open>
  A layer descriptor, at the types the source annotates (\<^verbatim>\<open>blob_digest: str\<close>,
  \<^verbatim>\<open>fallback_urls: List[str]\<close>): \<open>None\<close> is an absent key.
\<close>

record layer =
  digest :: "string option"
  urls :: "string list option"

text \<open>\<^verbatim>\<open>layer['digest']\<close>.\<close>

definition layer_digest :: "layer \<Rightarrow> exc + string" where
  "layer_digest l = (case digest l of None \<Rightarrow> Inl KeyError | Some d \<Rightarrow> Inr d)"

text \<open>
  The block \<^verbatim>\<open># Decompress the layer\<close> of \<^verbatim>\<open>download_layer\<close>: opening the
  target for writing creates it, also when reading the gzip stream then fails.
\<close>

definition decompress_layer :: "string \<Rightarrow> string \<Rightarrow> unit io" where
  "decompress_layer gzip_path tar_path =
     bind_io (read_file gzip_path)
       (\<lambda>gz. bind_io (case gunzip gz of
                        Inl e \<Rightarrow> bind_io (write_file tar_path (Plain [])) (\<lambda>_. raise e)
                      | Inr b \<Rightarrow> write_file tar_path b)
       (\<lambda>_. remove_file gzip_path))"

definition download_layer :: "env \<Rightarrow> puller \<Rightarrow> string \<Rightarrow> string \<Rightarrow> string list \<Rightarrow> unit io" where
  "download_layer E self blob_digest layer_dir fallback_urls =
     (let gzip_path = path_join layer_dir ''layer_gzip.tar'';
          tar_path = path_join layer_dir ''layer.tar''
      in bind_io
           (catch_http
              (download_with_progress E self (blob_url self blob_digest) gzip_path
                 (''Layer '' @ take 12 (drop 7 blob_digest)))
              (if fallback_urls = [] then raise HTTPError
               else download_with_progress E self (hd fallback_urls) gzip_path
                      (''Layer '' @ take 12 (drop 7 blob_digest) @ '' (fallback)'')))
           (\<lambda>_. decompress_layer gzip_path tar_path))"

definition create_layer_json ::
    "string \<Rightarrow> string \<Rightarrow> string \<Rightarrow> bytes \<Rightarrow> bool \<Rightarrow> unit io" where
  "create_layer_json layer_dir layer_id parent_id layer_json is_last_layer =
     (let json_path = path_join layer_dir ''json''
      in bind_io (lift (json_loads layer_json))
           (\<lambda>j0. bind_io (if is_last_layer then
                             bind_io (lift (py_pop ''history'' j0))
                               (\<lambda>j1. bind_io (lift (py_pop ''rootfs'' j1))
                               (\<lambda>j2. lift (py_pop ''rootfS'' j2)))
                           else ret j0)
           (\<lambda>j3. bind_io (lift (py_setitem ''id'' (JStr layer_id) j3))
           (\<lambda>j4. bind_io (if parent_id \<noteq> [] then lift (py_setitem ''parent'' (JStr parent_id) j4)
                           else ret j4)
           (\<lambda>j5. write_file json_path (json_dumps j5))))))"

definition process_layer :: "env \<Rightarrow> puller \<Rightarrow> layer \<Rightarrow> string \<Rightarrow> bytes \<Rightarrow> string io" where
  "process_layer E self l parent_id layer_json =
     bind_io (lift (layer_digest l))
       (\<lambda>blob_digest.
          let layer_id = sha256_hex E (parent_id @ [CHR 0x0A] @ blob_digest @ [CHR 0x0A]);
              layer_dir = path_join (image_dir self) layer_id
          in bind_io (mkdir layer_dir)
               (\<lambda>_. bind_io (write_file (path_join layer_dir ''VERSION'') (Plain ''1.0''))
               (\<lambda>_. bind_io (download_layer E self blob_digest layer_dir
                                (case urls l of None \<Rightarrow> [] | Some us \<Rightarrow> us))
               (\<lambda>_. bind_io (lift (layer_digest l))
               (\<lambda>d. bind_io (create_layer_json layer_dir layer_id parent_id layer_json
                                (blob_digest = d))
               (\<lambda>_. ret layer_id))))))"

definition empty_json :: bytes where
  "empty_json = json_dumps (JObj
     [(''created'', JStr ''1970-01-01T00:00:00Z''),
      (''container_config'', JObj
         [(''Hostname'', JStr []), (''Domainname'', JStr []), (''User'', JStr []),
          (''AttachStdin'', JBool False), (''AttachStdout'', JBool False),
          (''AttachStderr'', JBool False),
          (''Tty'', JBool False), (''OpenStdin'', JBool False), (''StdinOnce'', JBool False),
          (''Env'', JNull), (''Cmd'', JNull), (''Image'', JStr []),
          (''Volumes'', JNull), (''WorkingDir'', JStr []), (''Entrypoint'', JNull),
          (''OnBuild'', JNull), (''Labels'', JNull)])])"

text \<open>
  The loop of \<^verbatim>\<open>process_layers\<close> over the layers still to do: \<open>all_layers\<close> is
  the whole list (whose last element the loop reads each time), \<open>acc\<close> the entries
  appended to \<^verbatim>\<open>content['Layers']\<close> so far.
\<close>

fun layers_loop ::
    "env \<Rightarrow> puller \<Rightarrow> layer list \<Rightarrow> bytes \<Rightarrow> layer list \<Rightarrow> string \<Rightarrow> string list
       \<Rightarrow> (string \<times> string list) io" where
  "layers_loop E self all_layers config_content [] parent_id acc = ret (parent_id, acc)"
| "layers_loop E self all_layers config_content (l # ls) parent_id acc =
     bind_io (lift (layer_digest (last all_layers)))
       (\<lambda>d_last. bind_io (lift (layer_digest l))
       (\<lambda>d. bind_io (process_layer E self l parent_id
                       (if d_last = d then config_content else empty_json))
       (\<lambda>layer_id.
          layers_loop E self all_layers config_content ls layer_id
            (acc @ [layer_id @ ''/layer.tar'']))))"

definition process_layers :: "env \<Rightarrow> puller \<Rightarrow> layer list \<Rightarrow> bytes \<Rightarrow> (json \<times> string) io" where
  "process_layers E self layers config_content =
     bind_io (print (''Total '' @ str_nat (length layers) @ '' layers''))
       (\<lambda>_. bind_io (layers_loop E self layers config_content layers [] [])
       (\<lambda>r. ret (JObj [(''Config'', JStr (fst r @ ''.json'')),
                        (''RepoTags'', JArr [JStr (repo_tag self)]),
                        (''Layers'', JArr (map JStr (snd r)))],
                  fst r)))"

section \<open>The archive\<close>

definition create_image_files :: "puller \<Rightarrow> json \<Rightarrow> string \<Rightarrow> unit io" where
  "create_image_files self manifest_content last_layer_id =
     bind_io (write_file (path_join (image_dir self) ''manifest.json'')
                (json_dumps manifest_content))
       (\<lambda>_. write_file (path_join (image_dir self) ''repositories'')
               (json_dumps (JObj
                  [(if repo self \<noteq> ''library'' then repo self @ ''/'' @ img self else img self,
                    JObj [(tag self, JStr last_layer_id)])])))"

text \<open>
  \<^verbatim>\<open>tar.add(image_dir, arcname=os.path.sep)\<close> packs every file below the staging
  directory under its path relative to it.
\<close>

definition create_image_tar :: "puller \<Rightarrow> string io" where
  "create_image_tar self =
     (\<lambda>w. bind_io (write_file (tar_name self)
                     (Tar (map (\<lambda>kv. (drop (length (image_dir self)) (fst kv), snd kv))
                             (filter (\<lambda>kv. under (image_dir self) (fst kv)) (files w)))))
            (\<lambda>_. bind_io (rmtree (image_dir self))
            (\<lambda>_. ret (tar_name self))) w)"

section \<open>The pull\<close>

text \<open>
  The manifest's layer list, read at the types \<^verbatim>\<open>process_layers\<close> annotates
  (\<^verbatim>\<open>List[Dict]\<close>, with string digests and lists of string URLs). A manifest
  outside these types is refused here with \<open>TypeError\<close> before any layer is
  processed; the source, being untyped, fails on it at the first use that does not fit.
  The config digest is read as a string in the same way.
\<close>

definition as_str :: "json \<Rightarrow> exc + string" where
  "as_str j = (case j of JStr s \<Rightarrow> Inr s | _ \<Rightarrow> Inl TypeError)"

fun as_strs :: "json list \<Rightarrow> exc + string list" where
  "as_strs [] = Inr []"
| "as_strs (j # js) =
     (case as_str j of
        Inl e \<Rightarrow> Inl e
      | Inr s \<Rightarrow> (case as_strs js of Inl e \<Rightarrow> Inl e | Inr ss \<Rightarrow> Inr (s # ss)))"

definition as_layer :: "json \<Rightarrow> exc + layer" where
  "as_layer j =
     (case j of
        JObj kvs \<Rightarrow>
          (case (case map_of kvs ''digest'' of
                   None \<Rightarrow> Inr None
                 | Some v \<Rightarrow> (case as_str v of Inl e \<Rightarrow> Inl e | Inr s \<Rightarrow> Inr (Some s))) of
             Inl e \<Rightarrow> Inl e
           | Inr d \<Rightarrow>
               (case map_of kvs ''urls'' of
                  None \<Rightarrow> Inr \<lparr>digest = d, urls = None\<rparr>
                | Some (JArr us) \<Rightarrow>
                    (case as_strs us of
                       Inl e \<Rightarrow> Inl e
                     | Inr ss \<Rightarrow> Inr \<lparr>digest = d, urls = Some ss\<rparr>)
                | Some _ \<Rightarrow> Inl TypeError))
      | _ \<Rightarrow> Inl TypeError)"

fun as_layers :: "json list \<Rightarrow> exc + layer list" where
  "as_layers [] = Inr []"
| "as_layers (j # js) =
     (case as_layer j of
        Inl e \<Rightarrow> Inl e
      | Inr l \<Rightarrow> (case as_layers js of Inl e \<Rightarrow> Inl e | Inr ls \<Rightarrow> Inr (l # ls)))"

definition manifest_layers :: "json \<Rightarrow> exc + layer list" where
  "manifest_layers j = (case j of JArr js \<Rightarrow> as_layers js | _ \<Rightarrow> Inl TypeError)"

definition pull :: "env \<Rightarrow> puller \<Rightarrow> string io" where
  "pull E self0 =
     bind_io (lift (parse_image_reference self0))
       (\<lambda>self1. bind_io (get_auth_endpoint E self1)
       (\<lambda>self2. bind_io (create_image_directory self2)
       (\<lambda>self. bind_io (fetch_manifest E self)
       (\<lambda>manifest. bind_io (lift (subscript manifest ''config''))
       (\<lambda>config. bind_io (lift (subscript config ''digest''))
       (\<lambda>cd. bind_io (lift (as_str cd))
       (\<lambda>config_digest. bind_io (download_config E self config_digest)
       (\<lambda>config_file. bind_io (read_file config_file)
       (\<lambda>config_content. bind_io (lift (subscript manifest ''layers''))
       (\<lambda>ls. bind_io (lift (manifest_layers ls))
       (\<lambda>layers. bind_io (process_layers E self layers config_content)
       (\<lambda>r. bind_io (create_image_files self (fst r) (snd r))
       (\<lambda>_. bind_io (create_image_tar self)
       (\<lambda>tar. bind_io (print ([CHR 0x0D] @ ''Docker image pulled: '' @ tar))
       (\<lambda>_. ret tar)))))))))))))))"

text \<open>
  \<^verbatim>\<open>main\<close>, as the process sees it: the exit status and the world left behind.
  \<open>SystemExit\<close> passes the handler of \<^verbatim>\<open>Exception\<close> and ends the process with
  its code; any other exception is printed to standard error and ends it with 1.
\<close>

definition main :: "env \<Rightarrow> string list \<Rightarrow> world \<Rightarrow> int \<times> world" where
  "main E argv w =
     (if length argv \<noteq> 2 then
        (1, w\<lparr>stdout := stdout w @
               [Line (''Usage:'' @ [CHR 0x0A, CHR 0x09]
                        @ ''python docker_pull.py [registry/][repository/]image[:tag|@digest]''
                        @ [CHR 0x0A]),
                Line (''Like: '' @ [CHR 0x0A, CHR 0x09]
                        @ ''python docker_pull.py ''
                        @ ''registry.cn-shenzhen.aliyuncs.com/auto_image/pytorch:20.12-py3'')]\<rparr>)
      else
        (case pull E (init_puller (argv ! 1)) w of
           (Inr _, w') \<Rightarrow> (0, w')
         | (Inl (SystemExit n), w') \<Rightarrow> (n, w')
         | (Inl e, w') \<Rightarrow> (1, w'\<lparr>stderr := stderr w' @ [e]\<rparr>)))"

section \<open>Auxiliary notions for the statements\<close>

text \<open>Whether an exception is a \<open>SystemExit\<close>, which the handler of \<^verbatim>\<open>main\<close> lets through.\<close>

definition is_exit :: "exc \<Rightarrow> bool" where
  "is_exit e = (case e of SystemExit n \<Rightarrow> True | _ \<Rightarrow> False)"

text \<open>
  The line \<^verbatim>\<open>handle_manifest_error\<close> prints for a sub-manifest with the platform
  items \<open>fst pd\<close> and the digest \<open>snd pd\<close>.
\<close>

definition platform_line :: "env \<Rightarrow> (string \<times> json) list \<times> json \<Rightarrow> printed" where
  "platform_line E pd =
     Line (join '', '' (map (\<lambda>kv. fst kv @ '': '' @ fmt E (snd kv)) (fst pd))
             @ '', digest: '' @ fmt E (snd pd))"

text \<open>
  The world once \<^verbatim>\<open>handle_manifest_error\<close> has printed its first two lines: the
  failure with its status, and the body of the failed response.
\<close>

definition announce :: "puller \<Rightarrow> response \<Rightarrow> world \<Rightarrow> world" where
  "announce self resp w =
     w\<lparr>stdout := stdout w @
          [Line (''[-] Cannot fetch manifest for '' @ repo self @ ''/'' @ img self
                   @ '' [HTTP '' @ str_int (status_code resp) @ '']''),
           BytesRepr (content resp)]\<rparr>"

text \<open>
  The legacy layer IDs as the specification states them: each is the hash of the parent's
  ID, a newline, the blob digest and a newline, the parent of the first layer being
  \<open>parent_id\<close> (the empty string for a whole manifest).
\<close>

fun spec_layer_ids :: "(string \<Rightarrow> string) \<Rightarrow> string \<Rightarrow> string list \<Rightarrow> string list" where
  "spec_layer_ids H parent_id [] = []"
| "spec_layer_ids H parent_id (d # ds) =
     H (parent_id @ [CHR 0x0A] @ d @ [CHR 0x0A])
       # spec_layer_ids H (H (parent_id @ [CHR 0x0A] @ d @ [CHR 0x0A])) ds"

text \<open>
  The object \<^verbatim>\<open>create_layer_json\<close> writes when it is called with
  \<^verbatim>\<open>is_last_layer\<close> true on the object \<open>kvs\<close>.
\<close>

definition layer_json_of :: "string \<Rightarrow> string \<Rightarrow> (string \<times> json) list \<Rightarrow> (string \<times> json) list" where
  "layer_json_of layer_id parent_id kvs =
     (let j = AList.update ''id'' (JStr layer_id)
                (AList.delete ''rootfS'' (AList.delete ''rootfs'' (AList.delete ''history'' kvs)))
      in if parent_id \<noteq> [] then AList.update ''parent'' (JStr parent_id) j else j)"

text \<open>
  What the statements about files need of the hash: a digest is not empty and has no path
  separator, as a hexadecimal digest has none.
\<close>

definition plain_ids :: "env \<Rightarrow> bool" where
  "plain_ids E = (\<forall>s. sha256_hex E s \<noteq> [] \<and> CHR ''/'' \<notin> set (sha256_hex E s))"

text \<open>The files of \<open>w'\<close> are those of \<open>w\<close> except at the paths \<open>P\<close>.\<close>

definition same_except :: "string set \<Rightarrow> world \<Rightarrow> world \<Rightarrow> bool" where
  "same_except P w w' = (\<forall>p. p \<notin> P \<longrightarrow> map_of (files w') p = map_of (files w) p)"

text \<open>The paths \<^verbatim>\<open>process_layer\<close> writes in the directory \<open>d\<close> of a layer.\<close>

definition layer_files :: "string \<Rightarrow> string set" where
  "layer_files d = {path_join d ''VERSION'', path_join d ''layer_gzip.tar'',
                    path_join d ''layer.tar'', path_join d ''json''}"

section \<open>An example registry\<close>

text \<open>
  A small registry to run the puller against: it grants a token, serves the blobs
  \<open>sha256:aaaa\<close> and \<open>sha256:bbbb\<close> and a mirror URL, and answers 404 to everything
  else. The hash here is a stand-in that tells the inputs of the examples apart.
\<close>

definition demo_self :: puller where
  "demo_self = (init_puller ''img'')\<lparr>img := ''img'', image_dir := ''tmp_img_latest''\<rparr>"

definition demo_net :: "nat \<Rightarrow> request \<Rightarrow> response option" where
  "demo_net n req =
     (if url req = token_url demo_self then
        Some \<lparr>status_code = 200, www_authenticate = None, content_length = None,
              content = JsonText (JObj [(''token'', JStr ''t0k'')])\<rparr>
      else if url req \<in> {blob_url demo_self ''sha256:aaaa'', blob_url demo_self ''sha256:bbbb'',
                          ''https://mirror.example/blob''} then
        Some \<lparr>status_code = 200, www_authenticate = None, content_length = None,
              content = Gzip (Plain ''data'')\<rparr>
      else
        Some \<lparr>status_code = 404, www_authenticate = None, content_length = None,
              content = Plain ''not found''\<rparr>)"

definition demo_env :: env where
  "demo_env = \<lparr>sha256_hex = (\<lambda>s. ''id'' @ str_nat (length s)), py_str = (\<lambda>j. ''?''),
                py_int = (\<lambda>s. None), net = demo_net\<rparr>"

definition demo_world :: world where
  "demo_world = \<lparr>requests_log = [], stdout = [], stderr = [],
                  dirs = [''tmp_img_latest''], files = []\<rparr>"

text \<open>
  A registry that has no single manifest for the tag but a manifest list of two
  platforms.
\<close>

definition list_net :: "nat \<Rightarrow> request \<Rightarrow> response option" where
  "list_net n req =
     (if url req = token_url demo_self then
        Some \<lparr>status_code = 200, www_authenticate = None, content_length = None,
              content = JsonText (JObj [(''token'', JStr ''t0k'')])\<rparr>
      else if url req = manifest_url demo_self
                \<and> map_of (headers req) ''Accept'' = Some manifest_list_v2 then
        Some \<lparr>status_code = 200, www_authenticate = None, content_length = None,
              content = JsonText (JObj [(''manifests'', JArr
                [JObj [(''digest'', JStr ''sha256:1111''),
                       (''platform'', JObj [(''architecture'', JStr ''amd64''),
                                            (''os'', JStr ''linux'')])],
                 JObj [(''digest'', JStr ''sha256:2222''),
                       (''platform'', JObj [(''architecture'', JStr ''arm64''),
                                            (''os'', JStr ''linux'')])]])])\<rparr>
      else
        Some \<lparr>status_code = 404, www_authenticate = None, content_length = None,
              content = Plain ''not found''\<rparr>)"

definition list_env :: env where
  "list_env = demo_env\<lparr>net := list_net\<rparr>"

text \<open>A manifest of two layers, and a config with keys the assembler removes and keeps.\<close>

definition two_layers :: "layer list" where
  "two_layers = [\<lparr>digest = Some ''sha256:aaaa'', urls = None\<rparr>,
                 \<lparr>digest = Some ''sha256:bbbb'', urls = None\<rparr>]"

definition demo_config :: bytes where
  "demo_config = JsonText (JObj [(''architecture'', JStr ''amd64''), (''history'', JArr []),
                                 (''History'', JArr [])])"

text \<open>A one-layer manifest, a manifest whose two layers share a digest, and a config with a \<open>parent\<close> key.\<close>

definition one_layer :: "layer list" where
  "one_layer = [\<lparr>digest = Some ''sha256:aaaa'', urls = None\<rparr>]"

definition twin_layers :: "layer list" where
  "twin_layers = [\<lparr>digest = Some ''sha256:aaaa'', urls = None\<rparr>,
                  \<lparr>digest = Some ''sha256:aaaa'', urls = None\<rparr>]"

definition parent_config :: bytes where
  "parent_config = JsonText (JObj [(''architecture'', JStr ''amd64''),
                                   (''parent'', JStr ''sha256:0000'')])"

text \<open>
  A registry that serves the image \<open>img\<close>: a manifest with a config and two layers,
  the config blob and the two layer blobs.
\<close>

definition full_net :: "nat \<Rightarrow> request \<Rightarrow> response option" where
  "full_net n req =
     (if url req = token_url demo_self then
        Some \<lparr>status_code = 200, www_authenticate = None, content_length = None,
              content = JsonText (JObj [(''token'', JStr ''t0k'')])\<rparr>
      else if url req = manifest_url demo_self then
        Some \<lparr>status_code = 200, www_authenticate = None, content_length = None,
              content = JsonText (JObj
                [(''config'', JObj [(''digest'', JStr ''sha256:cccc'')]),
                 (''layers'', JArr [JObj [(''digest'', JStr ''sha256:aaaa'')],
                                    JObj [(''digest'', JStr ''sha256:bbbb'')]])])\<rparr>
      else if url req = blob_url demo_self ''sha256:cccc'' then
        Some \<lparr>status_code = 200, www_authenticate = None, content_length = None,
              content = demo_config\<rparr>
      else demo_net n req)"

definition full_env :: env where
  "full_env = demo_env\<lparr>net := full_net\<rparr>"

text \<open>The member \<open>name\<close> of the archive at the path \<open>tar\<close>.\<close>

definition tar_member :: "world \<Rightarrow> string \<Rightarrow> string \<Rightarrow> bytes option" where
  "tar_member w tar name =
     (case map_of (files w) tar of
        Some (Tar members) \<Rightarrow> map_of members name
      | _ \<Rightarrow> None)"

section \<open>Splitting\<close>

lemma split_chr_notin: "c \<notin> set s \<Longrightarrow> split_chr c s = [s]"
  by (induction s) (auto simp: Let_def)

lemma split_chr_nonempty: "split_chr c s \<noteq> []"
  by (induction s) (auto simp: Let_def)

lemma split_chr_append:
  "c \<notin> set a \<Longrightarrow> split_chr c (a @ c # b) = a # split_chr c b"
  by (induction a) (auto simp: Let_def)

section \<open>Reference parsing: the documented forms\<close>

lemma parse_last_tag:
  assumes "CHR ''@'' \<notin> set im" "CHR '':'' \<notin> set im" "CHR ''@'' \<notin> set tg" "CHR '':'' \<notin> set tg"
  shows "parse_last_part self (im @ CHR '':'' # tg) = Inr (self\<lparr>img := im, tag := tg\<rparr>)"
  using assms by (simp add: parse_last_part_def unpack2_def split_chr_append split_chr_notin)

lemma parse_last_digest:
  assumes "CHR ''@'' \<notin> set im" "CHR ''@'' \<notin> set dg"
  shows "parse_last_part self (im @ CHR ''@'' # dg) = Inr (self\<lparr>img := im, tag := dg\<rparr>)"
  using assms by (simp add: parse_last_part_def unpack2_def split_chr_append split_chr_notin)

lemma parse_last_bare:
  assumes "CHR ''@'' \<notin> set im" "CHR '':'' \<notin> set im"
  shows "parse_last_part self im = Inr (self\<lparr>img := im\<rparr>)"
  using assms by (simp add: parse_last_part_def)

lemma parse_last_part_fields:
  "parse_last_part self lp = Inr self' \<Longrightarrow>
     registry self' = registry self \<and> repo self' = repo self
     \<and> image_reference self' = image_reference self"
  by (auto simp: parse_last_part_def split: if_splits sum.splits)

text \<open>
  Claim C3. Each documented form of reference parses to the documented fields:
  \<^verbatim>\<open>host.tld/ns/img:tag\<close> gives the registry \<open>host.tld\<close> and the repository
  \<open>ns\<close>; \<^verbatim>\<open>ns/img:tag\<close> keeps the public registry; \<^verbatim>\<open>img:tag\<close>,
  \<^verbatim>\<open>img@digest\<close> and the bare \<^verbatim>\<open>img\<close> keep the public registry and the
  repository \<open>library\<close>, the bare form with the tag \<open>latest\<close>. The last segment is
  split on \<open>@\<close> before \<open>:\<close>, so a digest keeps its colon. The first segment is a
  registry only when it has a \<open>.\<close> or a \<open>:\<close>.
\<close>

theorem parse_documented_forms:
  assumes host: "CHR ''/'' \<notin> set host" "CHR ''.'' \<in> set host \<or> CHR '':'' \<in> set host"
    and ns: "CHR ''/'' \<notin> set ns"
    and im: "CHR ''/'' \<notin> set im" "CHR ''@'' \<notin> set im" "CHR '':'' \<notin> set im"
    and tg: "CHR ''/'' \<notin> set tg" "CHR ''@'' \<notin> set tg" "CHR '':'' \<notin> set tg"
    and dg: "CHR ''/'' \<notin> set dg" "CHR ''@'' \<notin> set dg"
  shows "parse_image_reference (init_puller (host @ ''/'' @ ns @ ''/'' @ im @ '':'' @ tg))
           = Inr ((init_puller (host @ ''/'' @ ns @ ''/'' @ im @ '':'' @ tg))
                    \<lparr>registry := host, repo := ns, tag := tg, img := im\<rparr>)
       \<and> (CHR ''.'' \<notin> set ns \<and> CHR '':'' \<notin> set ns \<longrightarrow>
            parse_image_reference (init_puller (ns @ ''/'' @ im @ '':'' @ tg))
              = Inr ((init_puller (ns @ ''/'' @ im @ '':'' @ tg))
                       \<lparr>registry := ''registry-1.docker.io'', repo := ns, tag := tg, img := im\<rparr>))
       \<and> parse_image_reference (init_puller (im @ '':'' @ tg))
           = Inr ((init_puller (im @ '':'' @ tg))
                    \<lparr>registry := ''registry-1.docker.io'', repo := ''library'', tag := tg, img := im\<rparr>)
       \<and> parse_image_reference (init_puller (im @ ''@'' @ dg))
           = Inr ((init_puller (im @ ''@'' @ dg))
                    \<lparr>registry := ''registry-1.docker.io'', repo := ''library'', tag := dg, img := im\<rparr>)
       \<and> parse_image_reference (init_puller im)
           = Inr ((init_puller im)
                    \<lparr>registry := ''registry-1.docker.io'', repo := ''library'', tag := ''latest'', img := im\<rparr>)"
proof -
  have f1: "parse_image_reference (init_puller (host @ ''/'' @ ns @ ''/'' @ im @ '':'' @ tg))
           = Inr ((init_puller (host @ ''/'' @ ns @ ''/'' @ im @ '':'' @ tg))
                    \<lparr>registry := host, repo := ns, tag := tg, img := im\<rparr>)"
    using assms
    by (simp add: parse_image_reference_def init_puller_def split_chr_append split_chr_notin
        parse_last_tag)
  have f2: "CHR ''.'' \<notin> set ns \<and> CHR '':'' \<notin> set ns \<longrightarrow>
         parse_image_reference (init_puller (ns @ ''/'' @ im @ '':'' @ tg))
           = Inr ((init_puller (ns @ ''/'' @ im @ '':'' @ tg))
              \<lparr>registry := ''registry-1.docker.io'', repo := ns, tag := tg, img := im\<rparr>)"
    using assms
    by (simp add: parse_image_reference_def init_puller_def split_chr_append split_chr_notin
        parse_last_tag)
  have f3: "parse_image_reference (init_puller (im @ '':'' @ tg))
           = Inr ((init_puller (im @ '':'' @ tg))
              \<lparr>registry := ''registry-1.docker.io'', repo := ''library'', tag := tg, img := im\<rparr>)"
    using assms
    by (simp add: parse_image_reference_def init_puller_def split_chr_append split_chr_notin
        parse_last_tag)
  have f4: "parse_image_reference (init_puller (im @ ''@'' @ dg))
           = Inr ((init_puller (im @ ''@'' @ dg))
              \<lparr>registry := ''registry-1.docker.io'', repo := ''library'', tag := dg, img := im\<rparr>)"
    using assms
    by (simp add: parse_image_reference_def init_puller_def split_chr_append split_chr_notin
        parse_last_digest)
  have f5: "parse_image_reference (init_puller im)
       = Inr ((init_puller im)
          \<lparr>registry := ''registry-1.docker.io'', repo := ''library'', tag := ''latest'', img := im\<rparr>)"
    using assms
    by (simp add: parse_image_reference_def init_puller_def split_chr_append split_chr_notin
        parse_last_bare)
  from f1 f2 f3 f4 f5 show ?thesis by blast
qed

theorem parse_documented_forms_witness:
  "parse_image_reference (init_puller ''host.tld/ns/img:tag'')
     = Inr ((init_puller ''host.tld/ns/img:tag'')
              \<lparr>registry := ''host.tld'', repo := ''ns'', tag := ''tag'', img := ''img''\<rparr>)
   \<and> parse_image_reference (init_puller ''ns/img:tag'')
     = Inr ((init_puller ''ns/img:tag'')
              \<lparr>registry := ''registry-1.docker.io'', repo := ''ns'', tag := ''tag'', img := ''img''\<rparr>)
   \<and> parse_image_reference (init_puller ''img:tag'')
     = Inr ((init_puller ''img:tag'')
              \<lparr>registry := ''registry-1.docker.io'', repo := ''library'', tag := ''tag'', img := ''img''\<rparr>)
   \<and> parse_image_reference (init_puller ''img@sha256:abc'')
     = Inr ((init_puller ''img@sha256:abc'')
              \<lparr>registry := ''registry-1.docker.io'', repo := ''library'', tag := ''sha256:abc'', img := ''img''\<rparr>)
   \<and> parse_image_reference (init_puller ''img'')
     = Inr ((init_puller ''img'')
              \<lparr>registry := ''registry-1.docker.io'', repo := ''library'', tag := ''latest'', img := ''img''\<rparr>)"
  using parse_documented_forms [of "''host.tld''" "''ns''" "''img''" "''tag''" "''sha256:abc''"]
  by simp



section \<open>The monad\<close>

lemma bind_ret [simp]: "bind_io (ret x) f w = f x w"
  by (simp add: bind_io_def ret_def)

lemma bind_raise [simp]: "bind_io (raise e) f w = (Inl e, w)"
  by (simp add: bind_io_def raise_def)

lemma bind_lift_Inr [simp]: "bind_io (lift (Inr x)) f w = f x w"
  by (simp add: bind_io_def lift_def)

lemma bind_lift_Inl [simp]: "bind_io (lift (Inl e)) f w = (Inl e, w)"
  by (simp add: bind_io_def lift_def)

lemma bind_io_Inl: "m w = (Inl e, w') \<Longrightarrow> bind_io m f w = (Inl e, w')"
  by (simp add: bind_io_def)

lemma bind_io_Inr: "m w = (Inr x, w') \<Longrightarrow> bind_io m f w = f x w'"
  by (simp add: bind_io_def)

lemma catch_http_HTTPError: "m w = (Inl HTTPError, w') \<Longrightarrow> catch_http m h w = h w'"
  by (simp add: catch_http_def)

section \<open>Blob download and the fallback URL\<close>

text \<open>Only the two downloads send requests; unpacking the blob sends none.\<close>

lemma get_auth_token_log:
  "get_auth_token E self ct w = (r, w') \<Longrightarrow>
     requests_log w' = requests_log w @ [\<lparr>url = token_url self, headers = []\<rparr>]"
  by (auto simp: get_auth_token_def bind_io_def http_get_def lift_def ret_def Let_def
      split: option.splits sum.splits prod.splits)

lemma download_with_progress_log:
  assumes "download_with_progress E self u fp desc w = (r, w')"
  shows "requests_log w' = requests_log w @ [\<lparr>url = token_url self, headers = []\<rparr>]
       \<or> (\<exists>hdrs. requests_log w' = requests_log w
              @ [\<lparr>url = token_url self, headers = []\<rparr>, \<lparr>url = u, headers = hdrs\<rparr>])"
proof (cases "get_auth_token E self manifest_v2 w")
  case (Pair a w1)
  note tok = get_auth_token_log [OF Pair]
  show ?thesis
  proof (cases a)
    case (Inl e)
    with Pair assms tok show ?thesis
      by (simp add: download_with_progress_def bind_io_Inl)
  next
    case (Inr hdrs)
    with Pair assms tok show ?thesis
      by (auto simp: download_with_progress_def bind_io_def http_get_def Let_def
          raise_for_status_def raise_def ret_def print_def write_file_def
          split: option.splits sum.splits prod.splits if_splits)
  qed
qed

lemma decompress_layer_log:
  "decompress_layer g t w = (r, w') \<Longrightarrow> requests_log w' = requests_log w"
  by (auto simp: decompress_layer_def bind_io_def read_file_def write_file_def remove_file_def
      raise_def split: option.splits sum.splits prod.splits if_splits)

text \<open>
  Claim C7. When the download from the registry's blob URL fails with an HTTP error:
  with no fallback URL the error reaches the caller; with fallback URLs there is one more
  download, from the first of them, after which no further request is sent, and an error
  of that download reaches the caller as it is.
\<close>

theorem download_layer_fallback:
  assumes primary:
    "download_with_progress E self (blob_url self d) (path_join dir ''layer_gzip.tar'')
       (''Layer '' @ take 12 (drop 7 d)) w = (Inl HTTPError, w1)"
  shows "(fbs = [] \<longrightarrow> download_layer E self d dir fbs w = (Inl HTTPError, w1))
       \<and> (fbs \<noteq> [] \<longrightarrow>
            (\<exists>r w2. download_with_progress E self (hd fbs) (path_join dir ''layer_gzip.tar'')
                       (''Layer '' @ take 12 (drop 7 d) @ '' (fallback)'') w1 = (r, w2)
               \<and> (requests_log w2 = requests_log w1 @ [\<lparr>url = token_url self, headers = []\<rparr>]
                    \<or> (\<exists>hdrs. requests_log w2 = requests_log w1
                          @ [\<lparr>url = token_url self, headers = []\<rparr>,
                             \<lparr>url = hd fbs, headers = hdrs\<rparr>]))
               \<and> requests_log (snd (download_layer E self d dir fbs w)) = requests_log w2
               \<and> (\<forall>e. r = Inl e \<longrightarrow> download_layer E self d dir fbs w = (Inl e, w2))))"
proof (intro conjI impI)
  assume "fbs = []"
  then show "download_layer E self d dir fbs w = (Inl HTTPError, w1)"
    using primary
    by (simp add: download_layer_def Let_def bind_io_def catch_http_def raise_def)
next
  assume ne: "fbs \<noteq> []"
  obtain r w2 where fb:
    "download_with_progress E self (hd fbs) (path_join dir ''layer_gzip.tar'')
       (''Layer '' @ take 12 (drop 7 d) @ '' (fallback)'') w1 = (r, w2)"
    by (cases "download_with_progress E self (hd fbs) (path_join dir ''layer_gzip.tar'')
       (''Layer '' @ take 12 (drop 7 d) @ '' (fallback)'') w1") blast
  have caught: "catch_http
      (download_with_progress E self (blob_url self d) (path_join dir ''layer_gzip.tar'')
         (''Layer '' @ take 12 (drop 7 d)))
      (if fbs = [] then raise HTTPError
       else download_with_progress E self (hd fbs) (path_join dir ''layer_gzip.tar'')
              (''Layer '' @ take 12 (drop 7 d) @ '' (fallback)'')) w = (r, w2)"
    using primary ne fb by (simp add: catch_http_def)
  have fail: "download_layer E self d dir fbs w = (Inl e, w2)" if "r = Inl e" for e
    using caught that by (simp add: download_layer_def Let_def bind_io_def)
  have log: "requests_log (snd (download_layer E self d dir fbs w)) = requests_log w2"
  proof (cases r)
    case (Inl e)
    then show ?thesis using fail by simp
  next
    case (Inr u)
    obtain r' w' where dl:
      "decompress_layer (path_join dir ''layer_gzip.tar'') (path_join dir ''layer.tar'') w2 = (r', w')"
      by (cases "decompress_layer (path_join dir ''layer_gzip.tar'') (path_join dir ''layer.tar'') w2") blast
    have "download_layer E self d dir fbs w = (r', w')"
      using caught Inr dl by (simp add: download_layer_def Let_def bind_io_def)
    then show ?thesis using decompress_layer_log [OF dl] by simp
  qed
  show "\<exists>r w2. download_with_progress E self (hd fbs) (path_join dir ''layer_gzip.tar'')
                       (''Layer '' @ take 12 (drop 7 d) @ '' (fallback)'') w1 = (r, w2)
               \<and> (requests_log w2 = requests_log w1 @ [\<lparr>url = token_url self, headers = []\<rparr>]
                    \<or> (\<exists>hdrs. requests_log w2 = requests_log w1
                          @ [\<lparr>url = token_url self, headers = []\<rparr>,
                             \<lparr>url = hd fbs, headers = hdrs\<rparr>]))
               \<and> requests_log (snd (download_layer E self d dir fbs w)) = requests_log w2
               \<and> (\<forall>e. r = Inl e \<longrightarrow> download_layer E self d dir fbs w = (Inl e, w2))"
    using fb download_with_progress_log [OF fb] log fail by blast
qed

theorem download_layer_fallback_witness:
  "fst (download_with_progress demo_env demo_self (blob_url demo_self ''sha256:dead'')
          (path_join ''tmp_img_latest/L'' ''layer_gzip.tar'')
          (''Layer '' @ take 12 (drop 7 ''sha256:dead'')) demo_world) = Inl HTTPError
   \<and> fst (download_layer demo_env demo_self ''sha256:dead'' ''tmp_img_latest/L'' [] demo_world)
       = Inl HTTPError
   \<and> map url (requests_log (snd (download_layer demo_env demo_self ''sha256:dead''
                ''tmp_img_latest/L'' [''https://mirror.example/blob''] demo_world)))
       = [token_url demo_self, blob_url demo_self ''sha256:dead'',
          token_url demo_self, ''https://mirror.example/blob'']"
proof -
  let ?p = "download_with_progress demo_env demo_self (blob_url demo_self ''sha256:dead'')
          (path_join ''tmp_img_latest/L'' ''layer_gzip.tar'')
          (''Layer '' @ take 12 (drop 7 ''sha256:dead'')) demo_world"
  have f: "fst ?p = Inl HTTPError"
    by code_simp
  then have prim: "?p = (Inl HTTPError, snd ?p)"
    by (metis prod.collapse)
  have a: "fst (download_layer demo_env demo_self ''sha256:dead'' ''tmp_img_latest/L'' []
                  demo_world) = Inl HTTPError"
    using download_layer_fallback [OF prim, of "[]"] by simp
  have b: "map url (requests_log (snd (download_layer demo_env demo_self ''sha256:dead''
                ''tmp_img_latest/L'' [''https://mirror.example/blob''] demo_world)))
       = [token_url demo_self, blob_url demo_self ''sha256:dead'',
          token_url demo_self, ''https://mirror.example/blob'']"
    by code_simp
  from f a b show ?thesis by blast
qed

section \<open>The manifest error path\<close>


lemma get_auth_token_no_exit:
  "get_auth_token E self ct w = (Inl e, w') \<Longrightarrow> \<not> is_exit e"
  by (auto simp: get_auth_token_def bind_io_def http_get_def lift_def ret_def Let_def
      json_loads_def subscript_def is_exit_def
      split: option.splits sum.splits prod.splits bytes.splits json.splits)

lemma get_auth_token_frame:
  "get_auth_token E self ct w = (r, w') \<Longrightarrow>
     stdout w' = stdout w \<and> stderr w' = stderr w \<and> files w' = files w \<and> dirs w' = dirs w"
  by (auto simp: get_auth_token_def bind_io_def http_get_def lift_def ret_def Let_def
      split: option.splits sum.splits prod.splits)

lemma http_get_frame:
  "http_get E req w = (r, w') \<Longrightarrow>
     stdout w' = stdout w \<and> stderr w' = stderr w \<and> files w' = files w \<and> dirs w' = dirs w
     \<and> requests_log w' = requests_log w @ [req]"
  by (auto simp: http_get_def Let_def split: option.splits)

lemma http_get_no_exit: "http_get E req w = (Inl e, w') \<Longrightarrow> \<not> is_exit e"
  by (auto simp: http_get_def Let_def is_exit_def split: option.splits)

lemma print_manifest_cases:
  "print_manifest E m w = (r, w') \<Longrightarrow>
     (\<exists>e. r = Inl e \<and> \<not> is_exit e \<and> w' = w)
     \<or> (\<exists>pk d. r = Inr () \<and> subscript m ''platform'' = Inr (JObj pk)
            \<and> subscript m ''digest'' = Inr d
            \<and> w' = w\<lparr>stdout := stdout w @
                  [Line (join '', '' (map (\<lambda>kv. fst kv @ '': '' @ fmt E (snd kv)) pk)
                           @ '', digest: '' @ fmt E d)]\<rparr>)"
  by (cases "subscript m ''platform''"; cases "subscript m ''digest''")
     (auto simp: print_manifest_def items_def is_exit_def print_def subscript_def
      split: json.splits option.splits)


lemma print_manifest_frame:
  "print_manifest E m w = (r, w') \<Longrightarrow>
     stderr w' = stderr w \<and> files w' = files w \<and> dirs w' = dirs w
     \<and> requests_log w' = requests_log w"
  by (drule print_manifest_cases) auto

lemma print_manifests_no_exit:
  "print_manifests E ms w = (Inl e, w') \<Longrightarrow> \<not> is_exit e"
proof (induction ms arbitrary: w)
  case Nil
  then show ?case by (simp add: ret_def)
next
  case (Cons m ms)
  obtain r w1 where pm: "print_manifest E m w = (r, w1)"
    by (cases "print_manifest E m w") blast
  from print_manifest_cases [OF pm] Cons.prems pm Cons.IH show ?case
    by (auto simp: bind_io_def)
qed

lemma print_manifests_frame:
  "print_manifests E ms w = (r, w') \<Longrightarrow>
     stderr w' = stderr w \<and> files w' = files w \<and> dirs w' = dirs w
     \<and> requests_log w' = requests_log w"
proof (induction ms arbitrary: w)
  case Nil
  then show ?case by (simp add: ret_def)
next
  case (Cons m ms)
  obtain r1 w1 where pm: "print_manifest E m w = (r1, w1)"
    by (cases "print_manifest E m w") blast
  show ?case
  proof (cases r1)
    case (Inl e)
    with pm Cons.prems print_manifest_frame [OF pm] show ?thesis
      by (simp add: bind_io_def)
  next
    case (Inr u)
    with pm Cons.prems have "print_manifests E ms w1 = (r, w')"
      by (simp add: bind_io_def)
    from Cons.IH [OF this] print_manifest_frame [OF pm] show ?thesis by simp
  qed
qed

lemma print_manifests_wellformed:
  assumes "list_all2 (\<lambda>m pd. subscript m ''platform'' = Inr (JObj (fst pd))
                          \<and> subscript m ''digest'' = Inr (snd pd)) ms entries"
  shows "print_manifests E ms w
           = (Inr (), w\<lparr>stdout := stdout w @ map (platform_line E) entries\<rparr>)"
  using assms
proof (induction ms entries arbitrary: w rule: list_all2_induct)
  case Nil
  then show ?case by (simp add: ret_def)
next
  case (Cons m ms pd entries)
  have "print_manifest E m w = (Inr (), w\<lparr>stdout := stdout w @ [platform_line E pd]\<rparr>)"
    using Cons.hyps(1)
    by (simp add: print_manifest_def items_def print_def platform_line_def)
  then show ?case
    using Cons.IH by (simp add: bind_io_def)
qed


lemma lift_no_exit_loads: "json_loads b = Inl e \<Longrightarrow> \<not> is_exit e"
  by (auto simp: json_loads_def is_exit_def split: bytes.splits)

lemma lift_no_exit_subscript: "subscript j k = Inl e \<Longrightarrow> \<not> is_exit e"
  by (auto simp: subscript_def is_exit_def split: json.splits option.splits)

lemma lift_no_exit_iter: "py_iter j = Inl e \<Longrightarrow> \<not> is_exit e"
  by (auto simp: py_iter_def is_exit_def split: json.splits)

lemma list_manifests_no_exit:
  assumes "list_manifests E resp w = (Inl e, w')"
  shows "\<not> is_exit e"
proof -
  let ?w1 = "w\<lparr>stdout := stdout w @ [Line (''[+] Manifests found for this tag ''
                       @ ''(use the @digest format to pull the corresponding image):'')]\<rparr>"
  show ?thesis
  proof (cases "json_loads (content resp)")
    case (Inl a)
    with assms lift_no_exit_loads [OF Inl] show ?thesis
      by (simp add: list_manifests_def bind_io_def print_def lift_def)
  next
    case j: (Inr j)
    show ?thesis
    proof (cases "subscript j ''manifests''")
      case (Inl a)
      with assms j lift_no_exit_subscript [OF Inl] show ?thesis
        by (simp add: list_manifests_def bind_io_def print_def lift_def)
    next
      case m: (Inr m)
      show ?thesis
      proof (cases "py_iter m")
        case (Inl a)
        with assms j m lift_no_exit_iter [OF Inl] show ?thesis
          by (simp add: list_manifests_def bind_io_def print_def lift_def)
      next
        case (Inr ms)
        with assms j m have "print_manifests E ms ?w1 = (Inl e, w')"
          by (simp add: list_manifests_def bind_io_def print_def lift_def)
        then show ?thesis by (rule print_manifests_no_exit)
      qed
    qed
  qed
qed

lemma list_manifests_frame:
  assumes "list_manifests E resp w = (r, w')"
  shows "stderr w' = stderr w \<and> files w' = files w \<and> dirs w' = dirs w
     \<and> requests_log w' = requests_log w"
proof -
  let ?w1 = "w\<lparr>stdout := stdout w @ [Line (''[+] Manifests found for this tag ''
                       @ ''(use the @digest format to pull the corresponding image):'')]\<rparr>"
  show ?thesis
  proof (cases "json_loads (content resp)")
    case (Inl a)
    with assms show ?thesis
      by (auto simp: list_manifests_def bind_io_def print_def lift_def)
  next
    case j: (Inr j)
    show ?thesis
    proof (cases "subscript j ''manifests''")
      case (Inl a)
      with assms j show ?thesis
        by (auto simp: list_manifests_def bind_io_def print_def lift_def)
    next
      case m: (Inr m)
      show ?thesis
      proof (cases "py_iter m")
        case (Inl a)
        with assms j m show ?thesis
          by (auto simp: list_manifests_def bind_io_def print_def lift_def)
      next
        case (Inr ms)
        with assms j m have "print_manifests E ms ?w1 = (r, w')"
          by (simp add: list_manifests_def bind_io_def print_def lift_def)
        from print_manifests_frame [OF this] show ?thesis by simp
      qed
    qed
  qed
qed

lemma handle_manifest_error_unfold:
  "handle_manifest_error E self resp w =
     bind_io (get_auth_token E self manifest_list_v2)
       (\<lambda>hdrs. bind_io (http_get E \<lparr>url = manifest_url self, headers = hdrs\<rparr>)
       (\<lambda>resp2. bind_io (if status_code resp2 = 200 then list_manifests E resp2 else ret ())
       (\<lambda>_. raise (SystemExit 1)))) (announce self resp w)"
  by (simp add: handle_manifest_error_def announce_def bind_io_def print_def print_bytes_def)

lemma handle_manifest_error_raises:
  assumes "handle_manifest_error E self resp w = (r, w')"
  shows "\<exists>e. r = Inl e \<and> (e = SystemExit 1 \<or> \<not> is_exit e)"
proof (cases "get_auth_token E self manifest_list_v2 (announce self resp w)")
  case (Pair a w1)
  show ?thesis
  proof (cases a)
    case (Inl e)
    with Pair assms get_auth_token_no_exit [of E self manifest_list_v2 _ e w1] show ?thesis
      by (auto simp: handle_manifest_error_unfold bind_io_def)
  next
    case hd: (Inr hdrs)
    show ?thesis
    proof (cases "http_get E \<lparr>url = manifest_url self, headers = hdrs\<rparr> w1")
      case g: (Pair b w2)
      show ?thesis
      proof (cases b)
        case (Inl e)
        with Pair hd g assms http_get_no_exit [of E _ w1 e w2] show ?thesis
          by (auto simp: handle_manifest_error_unfold bind_io_def)
      next
        case r2: (Inr resp2)
        show ?thesis
        proof (cases "status_code resp2 = 200")
          case False
          with Pair hd g r2 assms show ?thesis
            by (auto simp: handle_manifest_error_unfold bind_io_def raise_def ret_def)
        next
          case True
          obtain c w3 where lm: "list_manifests E resp2 w2 = (c, w3)"
            by (cases "list_manifests E resp2 w2") blast
          show ?thesis
          proof (cases c)
            case (Inl e)
            with lm list_manifests_no_exit [of E resp2 w2 e w3] Pair hd g r2 True assms
            show ?thesis
              by (auto simp: handle_manifest_error_unfold bind_io_def)
          next
            case (Inr u)
            with lm Pair hd g r2 True assms show ?thesis
              by (auto simp: handle_manifest_error_unfold bind_io_def raise_def)
          qed
        qed
      qed
    qed
  qed
qed

lemma handle_manifest_error_frame:
  assumes "handle_manifest_error E self resp w = (r, w')"
  shows "stderr w' = stderr w \<and> files w' = files w \<and> dirs w' = dirs w"
proof (cases "get_auth_token E self manifest_list_v2 (announce self resp w)")
  case (Pair a w1)
  note f1 = get_auth_token_frame [OF Pair]
  show ?thesis
  proof (cases a)
    case (Inl e)
    with Pair assms f1 show ?thesis
      by (auto simp: handle_manifest_error_unfold bind_io_def announce_def)
  next
    case hd: (Inr hdrs)
    show ?thesis
    proof (cases "http_get E \<lparr>url = manifest_url self, headers = hdrs\<rparr> w1")
      case g: (Pair b w2)
      note f2 = http_get_frame [OF g]
      show ?thesis
      proof (cases b)
        case (Inl e)
        with Pair hd g assms f1 f2 show ?thesis
          by (auto simp: handle_manifest_error_unfold bind_io_def announce_def)
      next
        case r2: (Inr resp2)
        show ?thesis
        proof (cases "status_code resp2 = 200")
          case False
          with Pair hd g r2 assms f1 f2 show ?thesis
            by (auto simp: handle_manifest_error_unfold bind_io_def raise_def ret_def announce_def)
        next
          case True
          obtain c w3 where lm: "list_manifests E resp2 w2 = (c, w3)"
            by (cases "list_manifests E resp2 w2") blast
          note f3 = list_manifests_frame [OF lm]
          show ?thesis
          proof (cases c)
            case (Inl e)
            with lm Pair hd g r2 True assms f1 f2 f3
            show ?thesis
              by (auto simp: handle_manifest_error_unfold bind_io_def announce_def)
          next
            case (Inr u)
            with lm Pair hd g r2 True assms f1 f2 f3 show ?thesis
              by (auto simp: handle_manifest_error_unfold bind_io_def raise_def announce_def)
          qed
        qed
      qed
    qed
  qed
qed

lemma fetch_manifest_error:
  assumes "get_auth_token E self manifest_v2 wb = (Inr hdrs, wc)"
    and "http_get E \<lparr>url = manifest_url self, headers = hdrs\<rparr> wc = (Inr resp, wd)"
    and "status_code resp \<noteq> 200"
    and "handle_manifest_error E self resp wd = (Inl e, w')"
  shows "fetch_manifest E self wb = (Inl e, w')"
  using assms by (simp add: fetch_manifest_def bind_io_def)

lemma pull_stops_at_fetch:
  assumes "parse_image_reference (init_puller ref) = Inr s1"
    and "get_auth_endpoint E s1 w0 = (Inr s2, wa)"
    and "create_image_directory s2 wa = (Inr self, wb)"
    and "fetch_manifest E self wb = (Inl e, w')"
  shows "pull E (init_puller ref) w0 = (Inl e, w')"
  using assms by (simp add: pull_def bind_io_def lift_def)

lemma main_exit_code:
  assumes "pull E (init_puller ref) w0 = (Inl e, w')"
  shows "e = SystemExit 1 \<Longrightarrow> main E [prog, ref] w0 = (1, w')"
    and "\<not> is_exit e \<Longrightarrow> main E [prog, ref] w0 = (1, w'\<lparr>stderr := stderr w' @ [e]\<rparr>)"
  using assms by (auto simp: main_def is_exit_def split: exc.splits)

lemma get_auth_endpoint_frame:
  "get_auth_endpoint E s w = (r, w') \<Longrightarrow>
     stdout w' = stdout w \<and> stderr w' = stderr w \<and> files w' = files w \<and> dirs w' = dirs w"
  by (auto simp: get_auth_endpoint_def bind_io_def http_get_def Let_def raise_def ret_def
      split: option.splits if_splits)

lemma create_image_directory_frame:
  "create_image_directory s w = (r, w') \<Longrightarrow>
     stderr w' = stderr w \<and> set (files w') \<subseteq> set (files w)
     \<and> requests_log w' = requests_log w"
  by (auto simp: create_image_directory_def bind_io_def Let_def raise_def ret_def rmtree_def
      mkdir_def print_def split: option.splits if_splits prod.splits sum.splits)

lemma pairI: "fst p = a \<Longrightarrow> p = (a, snd p)"
  by (cases p) simp

text \<open>
  Claim C10. \<^verbatim>\<open>handle_manifest_error\<close> never returns to its caller. When the run
  reaches the manifest fetch and the fetch answers with a status other than 200, the
  process ends with exit status 1, whatever the request for the manifest list does. When
  that request answers with a status other than 200 too, the process ends through
  \<^verbatim>\<open>exit(1)\<close>: nothing is printed after the two lines that report the failure, and
  the handler of \<^verbatim>\<open>main\<close> prints nothing to standard error.
\<close>

theorem manifest_error_exits:
  assumes parse: "parse_image_reference (init_puller ref) = Inr s1"
    and endpoint: "get_auth_endpoint E s1 w0 = (Inr s2, wa)"
    and staging: "create_image_directory s2 wa = (Inr self, wb)"
    and token: "get_auth_token E self manifest_v2 wb = (Inr hdrs, wc)"
    and fetch: "http_get E \<lparr>url = manifest_url self, headers = hdrs\<rparr> wc = (Inr resp, wd)"
    and status: "status_code resp \<noteq> 200"
  shows "(\<forall>s r w. \<exists>e. fst (handle_manifest_error E s r w) = Inl e)
       \<and> fst (main E [prog, ref] w0) = 1
       \<and> (\<forall>hdrs2 we resp2 wg.
            get_auth_token E self manifest_list_v2 (announce self resp wd) = (Inr hdrs2, we)
            \<and> http_get E \<lparr>url = manifest_url self, headers = hdrs2\<rparr> we = (Inr resp2, wg)
            \<and> status_code resp2 \<noteq> 200
            \<longrightarrow> handle_manifest_error E self resp wd = (Inl (SystemExit 1), wg)
              \<and> main E [prog, ref] w0 = (1, wg)
              \<and> stdout wg = stdout (announce self resp wd)
              \<and> stderr wg = stderr w0)"
proof (intro conjI allI impI)
  fix s r w
  obtain a w' where h: "handle_manifest_error E s r w = (a, w')"
    by (cases "handle_manifest_error E s r w") blast
  from handle_manifest_error_raises [OF h] h
  show "\<exists>e. fst (handle_manifest_error E s r w) = Inl e" by auto
next
  obtain a w' where h: "handle_manifest_error E self resp wd = (a, w')"
    by (cases "handle_manifest_error E self resp wd") blast
  from handle_manifest_error_raises [OF h] obtain e where
    e: "a = Inl e" "e = SystemExit 1 \<or> \<not> is_exit e" by blast
  have "fetch_manifest E self wb = (Inl e, w')"
    using fetch_manifest_error [OF token fetch status] h e(1) by simp
  then have p: "pull E (init_puller ref) w0 = (Inl e, w')"
    by (rule pull_stops_at_fetch [OF parse endpoint staging])
  from e(2) main_exit_code [OF p, of prog]
  show "fst (main E [prog, ref] w0) = 1" by auto
next
  fix hdrs2 we resp2 wg
  assume a: "get_auth_token E self manifest_list_v2 (announce self resp wd) = (Inr hdrs2, we)
            \<and> http_get E \<lparr>url = manifest_url self, headers = hdrs2\<rparr> we = (Inr resp2, wg)
            \<and> status_code resp2 \<noteq> 200"
  then have h: "handle_manifest_error E self resp wd = (Inl (SystemExit 1), wg)"
    by (simp add: handle_manifest_error_unfold bind_io_def raise_def ret_def)
  then show "handle_manifest_error E self resp wd = (Inl (SystemExit 1), wg)" .
  have "fetch_manifest E self wb = (Inl (SystemExit 1), wg)"
    using fetch_manifest_error [OF token fetch status h] .
  then have p: "pull E (init_puller ref) w0 = (Inl (SystemExit 1), wg)"
    by (rule pull_stops_at_fetch [OF parse endpoint staging])
  show "main E [prog, ref] w0 = (1, wg)"
    using main_exit_code(1) [OF p] by simp
  from a have t: "get_auth_token E self manifest_list_v2 (announce self resp wd) = (Inr hdrs2, we)"
    and g: "http_get E \<lparr>url = manifest_url self, headers = hdrs2\<rparr> we = (Inr resp2, wg)"
    by simp_all
  show "stdout wg = stdout (announce self resp wd)"
    using get_auth_token_frame [OF t] http_get_frame [OF g] by simp
  show "stderr wg = stderr w0"
    using get_auth_token_frame [OF t] http_get_frame [OF g]
      get_auth_token_frame [OF token] http_get_frame [OF fetch]
      get_auth_endpoint_frame [OF endpoint] create_image_directory_frame [OF staging]
    by (simp add: announce_def)
qed

theorem manifest_error_exits_witness:
  "fst (main demo_env [''docker_pull.py'', ''img''] demo_world) = 1
   \<and> stderr (snd (main demo_env [''docker_pull.py'', ''img''] demo_world)) = []
   \<and> stdout (snd (main demo_env [''docker_pull.py'', ''img''] demo_world))
       = [Line ''Creating image structure in: tmp_img_latest'',
          Line ''[-] Cannot fetch manifest for library/img [HTTP 404]'',
          BytesRepr (Plain ''not found'')]"
proof -
  let ?E = "demo_env"
  let ?s1 = "(init_puller ''img'')\<lparr>img := ''img''\<rparr>"
  let ?hd = "[(''Authorization'', ''Bearer t0k''), (''Accept'', manifest_v2)]"
  let ?hd2 = "[(''Authorization'', ''Bearer t0k''), (''Accept'', manifest_list_v2)]"
  let ?r404 = "\<lparr>status_code = 404, www_authenticate = None, content_length = None,
                 content = Plain ''not found''\<rparr>"
  let ?ga = "get_auth_endpoint ?E ?s1 demo_world"
  let ?cd = "create_image_directory ?s1 (snd ?ga)"
  let ?tk = "get_auth_token ?E demo_self manifest_v2 (snd ?cd)"
  let ?g = "http_get ?E \<lparr>url = manifest_url demo_self, headers = ?hd\<rparr> (snd ?tk)"
  let ?tk2 = "get_auth_token ?E demo_self manifest_list_v2 (announce demo_self ?r404 (snd ?g))"
  let ?g2 = "http_get ?E \<lparr>url = manifest_url demo_self, headers = ?hd2\<rparr> (snd ?tk2)"
  have parse: "parse_image_reference (init_puller ''img'') = Inr ?s1"
    by code_simp
  have endpoint: "?ga = (Inr ?s1, snd ?ga)"
    by (rule pairI) code_simp
  have staging: "?cd = (Inr demo_self, snd ?cd)"
    by (rule pairI) code_simp
  have token: "?tk = (Inr ?hd, snd ?tk)"
    by (rule pairI) code_simp
  have fetch: "?g = (Inr ?r404, snd ?g)"
    by (rule pairI) code_simp
  have status: "status_code ?r404 \<noteq> 200"
    by simp
  have token2: "?tk2 = (Inr ?hd2, snd ?tk2)"
    by (rule pairI) code_simp
  have fetch2: "?g2 = (Inr ?r404, snd ?g2)"
    by (rule pairI) code_simp
  from manifest_error_exits [OF parse endpoint staging token fetch status, of "''docker_pull.py''"]
  have one: "fst (main demo_env [''docker_pull.py'', ''img''] demo_world) = 1"
    and rest: "get_auth_token ?E demo_self manifest_list_v2 (announce demo_self ?r404 (snd ?g))
                 = (Inr ?hd2, snd ?tk2)
               \<and> http_get ?E \<lparr>url = manifest_url demo_self, headers = ?hd2\<rparr> (snd ?tk2)
                   = (Inr ?r404, snd ?g2)
               \<and> status_code ?r404 \<noteq> 200
               \<longrightarrow> main ?E [''docker_pull.py'', ''img''] demo_world = (1, snd ?g2)
                 \<and> stderr (snd ?g2) = stderr demo_world"
    by blast+
  from rest token2 fetch2 status
  have "main ?E [''docker_pull.py'', ''img''] demo_world = (1, snd ?g2)"
    and "stderr (snd ?g2) = stderr demo_world"
    by blast+
  then have err: "stderr (snd (main demo_env [''docker_pull.py'', ''img''] demo_world)) = []"
    by (simp add: demo_world_def)
  have out: "stdout (snd (main demo_env [''docker_pull.py'', ''img''] demo_world))
       = [Line ''Creating image structure in: tmp_img_latest'',
          Line ''[-] Cannot fetch manifest for library/img [HTTP 404]'',
          BytesRepr (Plain ''not found'')]"
    by code_simp
  from one err out show ?thesis by blast
qed

lemma manifest_error_run:
  assumes parse: "parse_image_reference (init_puller ref) = Inr s1"
    and endpoint: "get_auth_endpoint E s1 w0 = (Inr s2, wa)"
    and staging: "create_image_directory s2 wa = (Inr self, wb)"
    and token: "get_auth_token E self manifest_v2 wb = (Inr hdrs, wc)"
    and fetch: "http_get E \<lparr>url = manifest_url self, headers = hdrs\<rparr> wc = (Inr resp, wd)"
    and status: "status_code resp \<noteq> 200"
  shows "\<exists>e w'. handle_manifest_error E self resp wd = (Inl e, w')
           \<and> (e = SystemExit 1 \<and> main E [prog, ref] w0 = (1, w')
                \<or> \<not> is_exit e
                  \<and> main E [prog, ref] w0 = (1, w'\<lparr>stderr := stderr w' @ [e]\<rparr>))
           \<and> files w' = files wd \<and> set (files wd) \<subseteq> set (files w0)"
proof -
  obtain a w' where h: "handle_manifest_error E self resp wd = (a, w')"
    by (cases "handle_manifest_error E self resp wd") blast
  from handle_manifest_error_raises [OF h] obtain e where
    e: "a = Inl e" "e = SystemExit 1 \<or> \<not> is_exit e" by blast
  have "fetch_manifest E self wb = (Inl e, w')"
    using fetch_manifest_error [OF token fetch status] h e(1) by simp
  then have p: "pull E (init_puller ref) w0 = (Inl e, w')"
    by (rule pull_stops_at_fetch [OF parse endpoint staging])
  have "set (files wd) \<subseteq> set (files w0)"
    using get_auth_token_frame [OF token] http_get_frame [OF fetch]
      get_auth_endpoint_frame [OF endpoint] create_image_directory_frame [OF staging]
    by simp
  with e h main_exit_code [OF p, of prog] handle_manifest_error_frame [OF h]
  show ?thesis by (auto simp: is_exit_def)
qed

text \<open>
  Claim C8. When the run reaches the manifest fetch and the fetch answers with a status
  other than 200, the process ends with exit status 1 and has created no file, so no
  archive. When moreover the request with the manifest-list accept header answers 200
  with a list of sub-manifests, each having a platform and a digest, the run prints one
  line per sub-manifest with its platform items and its digest; after the request for the
  list it sends no other, so the pull is not retried, and nothing goes to standard error.
\<close>

theorem manifest_list_reported:
  assumes parse: "parse_image_reference (init_puller ref) = Inr s1"
    and endpoint: "get_auth_endpoint E s1 w0 = (Inr s2, wa)"
    and staging: "create_image_directory s2 wa = (Inr self, wb)"
    and token: "get_auth_token E self manifest_v2 wb = (Inr hdrs, wc)"
    and fetch: "http_get E \<lparr>url = manifest_url self, headers = hdrs\<rparr> wc = (Inr resp, wd)"
    and status: "status_code resp \<noteq> 200"
  shows "fst (main E [prog, ref] w0) = 1
       \<and> set (files (snd (main E [prog, ref] w0))) \<subseteq> set (files w0)
       \<and> (\<forall>hdrs2 we resp2 wg j ms entries.
            get_auth_token E self manifest_list_v2 (announce self resp wd) = (Inr hdrs2, we)
            \<and> http_get E \<lparr>url = manifest_url self, headers = hdrs2\<rparr> we = (Inr resp2, wg)
            \<and> status_code resp2 = 200
            \<and> json_loads (content resp2) = Inr j
            \<and> subscript j ''manifests'' = Inr (JArr ms)
            \<and> list_all2 (\<lambda>m pd. subscript m ''platform'' = Inr (JObj (fst pd))
                                \<and> subscript m ''digest'' = Inr (snd pd)) ms entries
            \<longrightarrow> stdout (snd (main E [prog, ref] w0))
                  = stdout (announce self resp wd)
                      @ [Line (''[+] Manifests found for this tag ''
                                 @ ''(use the @digest format to pull the corresponding image):'')]
                      @ map (platform_line E) entries
              \<and> requests_log (snd (main E [prog, ref] w0))
                  = requests_log wd
                      @ [\<lparr>url = token_url self, headers = []\<rparr>,
                         \<lparr>url = manifest_url self, headers = hdrs2\<rparr>]
              \<and> stderr (snd (main E [prog, ref] w0)) = stderr w0)"
proof (intro conjI allI impI)
  from manifest_error_run [OF parse endpoint staging token fetch status, of prog]
  show "fst (main E [prog, ref] w0) = 1"
    and "set (files (snd (main E [prog, ref] w0))) \<subseteq> set (files w0)"
    by auto
next
  fix hdrs2 we resp2 wg j ms entries
  assume a: "get_auth_token E self manifest_list_v2 (announce self resp wd) = (Inr hdrs2, we)
            \<and> http_get E \<lparr>url = manifest_url self, headers = hdrs2\<rparr> we = (Inr resp2, wg)
            \<and> status_code resp2 = 200
            \<and> json_loads (content resp2) = Inr j
            \<and> subscript j ''manifests'' = Inr (JArr ms)
            \<and> list_all2 (\<lambda>m pd. subscript m ''platform'' = Inr (JObj (fst pd))
                                \<and> subscript m ''digest'' = Inr (snd pd)) ms entries"
  then have token2: "get_auth_token E self manifest_list_v2 (announce self resp wd)
                       = (Inr hdrs2, we)"
    and fetch2: "http_get E \<lparr>url = manifest_url self, headers = hdrs2\<rparr> we = (Inr resp2, wg)"
    and status2: "status_code resp2 = 200"
    and body: "json_loads (content resp2) = Inr j" "subscript j ''manifests'' = Inr (JArr ms)"
    and entries: "list_all2 (\<lambda>m pd. subscript m ''platform'' = Inr (JObj (fst pd))
                                  \<and> subscript m ''digest'' = Inr (snd pd)) ms entries"
    by simp_all
  let ?w1 = "wg\<lparr>stdout := stdout wg @ [Line (''[+] Manifests found for this tag ''
                          @ ''(use the @digest format to pull the corresponding image):'')]\<rparr>"
  let ?w' = "?w1\<lparr>stdout := stdout ?w1 @ map (platform_line E) entries\<rparr>"
  have lm: "list_manifests E resp2 wg = (Inr (), ?w')"
    using body print_manifests_wellformed [OF entries, of E ?w1]
    by (simp add: list_manifests_def bind_io_def print_def py_iter_def lift_def)
  have h: "handle_manifest_error E self resp wd = (Inl (SystemExit 1), ?w')"
    using token2 fetch2 status2 lm
    by (simp add: handle_manifest_error_unfold bind_io_def raise_def)
  have "fetch_manifest E self wb = (Inl (SystemExit 1), ?w')"
    using fetch_manifest_error [OF token fetch status h] .
  then have p: "pull E (init_puller ref) w0 = (Inl (SystemExit 1), ?w')"
    by (rule pull_stops_at_fetch [OF parse endpoint staging])
  have m: "main E [prog, ref] w0 = (1, ?w')"
    using main_exit_code(1) [OF p] by simp
  note fr = get_auth_token_frame [OF token2] http_get_frame [OF fetch2]
      get_auth_token_frame [OF token] http_get_frame [OF fetch]
      get_auth_endpoint_frame [OF endpoint] create_image_directory_frame [OF staging]
      get_auth_token_log [OF token2]
  show "stdout (snd (main E [prog, ref] w0))
                  = stdout (announce self resp wd)
                      @ [Line (''[+] Manifests found for this tag ''
                                 @ ''(use the @digest format to pull the corresponding image):'')]
                      @ map (platform_line E) entries"
    using fr m by simp
  show "requests_log (snd (main E [prog, ref] w0))
                  = requests_log wd
                      @ [\<lparr>url = token_url self, headers = []\<rparr>,
                         \<lparr>url = manifest_url self, headers = hdrs2\<rparr>]"
    using fr m by (simp add: announce_def)
  show "stderr (snd (main E [prog, ref] w0)) = stderr w0"
    using fr m by (simp add: announce_def)
qed

theorem manifest_list_reported_witness:
  "fst (main list_env [''docker_pull.py'', ''img''] demo_world) = 1
   \<and> stdout (snd (main list_env [''docker_pull.py'', ''img''] demo_world))
       = [Line ''Creating image structure in: tmp_img_latest'',
          Line ''[-] Cannot fetch manifest for library/img [HTTP 404]'',
          BytesRepr (Plain ''not found''),
          Line (''[+] Manifests found for this tag ''
                  @ ''(use the @digest format to pull the corresponding image):''),
          Line ''architecture: amd64, os: linux, digest: sha256:1111'',
          Line ''architecture: arm64, os: linux, digest: sha256:2222'']
   \<and> files (snd (main list_env [''docker_pull.py'', ''img''] demo_world)) = []"
proof -
  let ?E = "list_env"
  let ?s1 = "(init_puller ''img'')\<lparr>img := ''img''\<rparr>"
  let ?hd = "[(''Authorization'', ''Bearer t0k''), (''Accept'', manifest_v2)]"
  let ?hd2 = "[(''Authorization'', ''Bearer t0k''), (''Accept'', manifest_list_v2)]"
  let ?r404 = "\<lparr>status_code = 404, www_authenticate = None, content_length = None,
                 content = Plain ''not found''\<rparr>"
  let ?m1 = "JObj [(''digest'', JStr ''sha256:1111''),
                   (''platform'', JObj [(''architecture'', JStr ''amd64''),
                                        (''os'', JStr ''linux'')])]"
  let ?m2 = "JObj [(''digest'', JStr ''sha256:2222''),
                   (''platform'', JObj [(''architecture'', JStr ''arm64''),
                                        (''os'', JStr ''linux'')])]"
  let ?j = "JObj [(''manifests'', JArr [?m1, ?m2])]"
  let ?r200 = "\<lparr>status_code = 200, www_authenticate = None, content_length = None,
                 content = JsonText ?j\<rparr>"
  let ?entries = "[([(''architecture'', JStr ''amd64''), (''os'', JStr ''linux'')],
                    JStr ''sha256:1111''),
                   ([(''architecture'', JStr ''arm64''), (''os'', JStr ''linux'')],
                    JStr ''sha256:2222'')]"
  let ?ga = "get_auth_endpoint ?E ?s1 demo_world"
  let ?cd = "create_image_directory ?s1 (snd ?ga)"
  let ?tk = "get_auth_token ?E demo_self manifest_v2 (snd ?cd)"
  let ?g = "http_get ?E \<lparr>url = manifest_url demo_self, headers = ?hd\<rparr> (snd ?tk)"
  let ?tk2 = "get_auth_token ?E demo_self manifest_list_v2 (announce demo_self ?r404 (snd ?g))"
  let ?g2 = "http_get ?E \<lparr>url = manifest_url demo_self, headers = ?hd2\<rparr> (snd ?tk2)"
  let ?m = "main list_env [''docker_pull.py'', ''img''] demo_world"
  have parse: "parse_image_reference (init_puller ''img'') = Inr ?s1"
    by code_simp
  have endpoint: "?ga = (Inr ?s1, snd ?ga)"
    by (rule pairI) code_simp
  have staging: "?cd = (Inr demo_self, snd ?cd)"
    by (rule pairI) code_simp
  have token: "?tk = (Inr ?hd, snd ?tk)"
    by (rule pairI) code_simp
  have fetch: "?g = (Inr ?r404, snd ?g)"
    by (rule pairI) code_simp
  have status: "status_code ?r404 \<noteq> 200"
    by simp
  have token2: "?tk2 = (Inr ?hd2, snd ?tk2)"
    by (rule pairI) code_simp
  have fetch2: "?g2 = (Inr ?r200, snd ?g2)"
    by (rule pairI) code_simp
  have status2: "status_code ?r200 = 200"
    by simp
  have body1: "json_loads (content ?r200) = Inr ?j"
    by (simp add: json_loads_def)
  have body2: "subscript ?j ''manifests'' = Inr (JArr [?m1, ?m2])"
    by (simp add: subscript_def)
  have entries: "list_all2 (\<lambda>m pd. subscript m ''platform'' = Inr (JObj (fst pd))
                                  \<and> subscript m ''digest'' = Inr (snd pd)) [?m1, ?m2] ?entries"
    by (simp add: subscript_def)
  note th = manifest_list_reported [OF parse endpoint staging token fetch status,
      of "''docker_pull.py''"]
  from th have one: "fst ?m = 1"
    and sub: "set (files (snd ?m)) \<subseteq> set (files demo_world)"
    by blast+
  from th token2 fetch2 status2 body1 body2 entries
  have "stdout (snd ?m)
          = stdout (announce demo_self ?r404 (snd ?g))
              @ [Line (''[+] Manifests found for this tag ''
                         @ ''(use the @digest format to pull the corresponding image):'')]
              @ map (platform_line list_env) ?entries"
    by blast
  also have "\<dots> = [Line ''Creating image structure in: tmp_img_latest'',
          Line ''[-] Cannot fetch manifest for library/img [HTTP 404]'',
          BytesRepr (Plain ''not found''),
          Line (''[+] Manifests found for this tag ''
                  @ ''(use the @digest format to pull the corresponding image):''),
          Line ''architecture: amd64, os: linux, digest: sha256:1111'',
          Line ''architecture: arm64, os: linux, digest: sha256:2222'']"
    by code_simp
  finally have out: "stdout (snd ?m)
       = [Line ''Creating image structure in: tmp_img_latest'',
          Line ''[-] Cannot fetch manifest for library/img [HTTP 404]'',
          BytesRepr (Plain ''not found''),
          Line (''[+] Manifests found for this tag ''
                  @ ''(use the @digest format to pull the corresponding image):''),
          Line ''architecture: amd64, os: linux, digest: sha256:1111'',
          Line ''architecture: arm64, os: linux, digest: sha256:2222'']" .
  from sub have none: "files (snd ?m) = []"
    by (simp add: demo_world_def)
  from one out none show ?thesis by blast
qed

section \<open>Layer identifiers and layer files\<close>

lemma str_nat_digits: "set (str_nat n) \<subseteq> set ''0123456789''"
proof (induction n rule: str_nat.induct)
  case (1 n)
  have all: "\<forall>k \<in> set [0..<10]. char_of (48 + k) \<in> set ''0123456789''"
    by code_simp
  have d: "char_of (48 + k) \<in> set ''0123456789''" if "k < 10" for k :: nat
    using all that by simp
  show ?case
  proof (cases "n < 10")
    case True
    then show ?thesis using d [of n] by (subst str_nat.simps) simp
  next
    case False
    then show ?thesis
      using 1 d [of "n mod 10"] by (subst str_nat.simps) auto
  qed
qed

lemma plain_ids_demo: "plain_ids demo_env"
  using str_nat_digits by (auto simp: plain_ids_def demo_env_def)

lemma plain_ids_list: "plain_ids list_env"
  using plain_ids_demo by (simp add: plain_ids_def list_env_def)

text \<open>Paths below a directory whose name is not empty and does not end with the separator.\<close>

lemma path_join_plain:
  "d \<noteq> [] \<Longrightarrow> last d \<noteq> CHR ''/'' \<Longrightarrow> x \<noteq> [] \<Longrightarrow> hd x \<noteq> CHR ''/''
     \<Longrightarrow> path_join d x = d @ ''/'' @ x"
  by (simp add: path_join_def)

lemma prefix_sep_inject:
  "c \<notin> set x \<Longrightarrow> c \<notin> set y \<Longrightarrow> x @ c # a = y @ c # b \<Longrightarrow> x = y \<and> a = b"
proof (induction x arbitrary: y)
  case Nil
  then show ?case by (cases y) auto
next
  case (Cons u x)
  then show ?case by (cases y) auto
qed

lemma append_sep_inject:
  assumes "a @ c # x = b @ c # y" "c \<notin> set x" "c \<notin> set y"
  shows "a = b \<and> x = y"
proof -
  have "rev x @ c # rev a = rev y @ c # rev b"
    using arg_cong [OF assms(1), of rev] by simp
  moreover have "c \<notin> set (rev x)" "c \<notin> set (rev y)" using assms by simp_all
  ultimately have "rev x = rev y \<and> rev a = rev b"
    by (rule prefix_sep_inject [rotated 2])
  then show ?thesis by simp
qed

lemma layer_dir_plain:
  assumes "i \<noteq> []" "CHR ''/'' \<notin> set i"
  shows "path_join base i \<noteq> [] \<and> last (path_join base i) \<noteq> CHR ''/''"
proof -
  have "last i \<in> set i" using assms(1) by (rule last_in_set)
  with assms(2) have "last i \<noteq> CHR ''/''" by metis
  with assms(1) show ?thesis by (auto simp: path_join_def)
qed

lemma same_except_refl: "same_except P w w"
  by (simp add: same_except_def)

lemma same_except_trans:
  "same_except P w w1 \<Longrightarrow> same_except Q w1 w2 \<Longrightarrow> same_except (P \<union> Q) w w2"
  by (simp add: same_except_def)

lemma same_except_mono: "same_except P w w' \<Longrightarrow> P \<subseteq> Q \<Longrightarrow> same_except Q w w'"
  by (auto simp: same_except_def)

lemma same_except_files: "files w' = files w \<Longrightarrow> same_except P w w'"
  by (simp add: same_except_def)

lemma write_file_effect:
  "write_file p b w = (r, w') \<Longrightarrow>
     r = Inr () \<and> dirs w' = dirs w \<and> same_except {p} w w' \<and> map_of (files w') p = Some b"
  by (auto simp: write_file_def same_except_def update_conv)

lemma get_auth_token_files:
  "get_auth_token E self ct w = (r, w') \<Longrightarrow> dirs w' = dirs w \<and> files w' = files w"
  using get_auth_token_frame by blast

lemma download_with_progress_effect:
  assumes "download_with_progress E self u fp desc w = (r, w')"
  shows "dirs w' = dirs w \<and> same_except {fp} w w'"
proof (cases "get_auth_token E self manifest_v2 w")
  case (Pair a w1)
  note f = get_auth_token_files [OF Pair]
  show ?thesis
  proof (cases a)
    case (Inl e)
    with Pair assms f show ?thesis
      by (simp add: download_with_progress_def bind_io_Inl same_except_files)
  next
    case (Inr hdrs)
    with Pair assms f show ?thesis
      by (auto simp: download_with_progress_def bind_io_def http_get_def Let_def
          raise_for_status_def raise_def ret_def print_def write_file_def same_except_def
          update_conv
          split: option.splits sum.splits prod.splits if_splits)
  qed
qed

lemma decompress_layer_effect:
  "decompress_layer g t w = (r, w') \<Longrightarrow> dirs w' = dirs w \<and> same_except {g, t} w w'"
  by (auto simp: decompress_layer_def bind_io_def read_file_def write_file_def remove_file_def
      raise_def same_except_def update_conv delete_conv
      split: option.splits sum.splits prod.splits if_splits)

lemma catch_http_cases:
  "catch_http m h w = (r, w') \<Longrightarrow>
     m w = (r, w') \<or> (\<exists>w1. m w = (Inl HTTPError, w1) \<and> h w1 = (r, w'))"
  by (auto simp: catch_http_def split: prod.splits sum.splits exc.splits)

lemma download_layer_effect:
  assumes "download_layer E self d dir fbs w = (r, w')"
  shows "dirs w' = dirs w
       \<and> same_except {path_join dir ''layer_gzip.tar'', path_join dir ''layer.tar''} w w'"
proof -
  let ?g = "path_join dir ''layer_gzip.tar''" and ?t = "path_join dir ''layer.tar''"
  let ?c = "catch_http
              (download_with_progress E self (blob_url self d) ?g
                 (''Layer '' @ take 12 (drop 7 d)))
              (if fbs = [] then raise HTTPError
               else download_with_progress E self (hd fbs) ?g
                      (''Layer '' @ take 12 (drop 7 d) @ '' (fallback)''))"
  obtain a w1 where c: "?c w = (a, w1)" by (cases "?c w") blast
  have c_eff: "dirs w1 = dirs w \<and> same_except {?g} w w1"
  proof -
    from catch_http_cases [OF c] show ?thesis
    proof
      assume "download_with_progress E self (blob_url self d) ?g
                 (''Layer '' @ take 12 (drop 7 d)) w = (a, w1)"
      then show ?thesis by (rule download_with_progress_effect)
    next
      assume "\<exists>w0. download_with_progress E self (blob_url self d) ?g
                 (''Layer '' @ take 12 (drop 7 d)) w = (Inl HTTPError, w0)
              \<and> (if fbs = [] then raise HTTPError
                  else download_with_progress E self (hd fbs) ?g
                      (''Layer '' @ take 12 (drop 7 d) @ '' (fallback)'')) w0 = (a, w1)"
      then obtain w0 where
        p: "download_with_progress E self (blob_url self d) ?g
                 (''Layer '' @ take 12 (drop 7 d)) w = (Inl HTTPError, w0)"
        and h: "(if fbs = [] then raise HTTPError
                  else download_with_progress E self (hd fbs) ?g
                      (''Layer '' @ take 12 (drop 7 d) @ '' (fallback)'')) w0 = (a, w1)"
        by blast
      note e0 = download_with_progress_effect [OF p]
      show ?thesis
      proof (cases "fbs = []")
        case True
        with h e0 show ?thesis by (simp add: raise_def)
      next
        case False
        with h have "download_with_progress E self (hd fbs) ?g
                      (''Layer '' @ take 12 (drop 7 d) @ '' (fallback)'') w0 = (a, w1)"
          by simp
        from download_with_progress_effect [OF this] e0 show ?thesis
          using same_except_trans [of "{?g}" w w0 "{?g}" w1] by simp
      qed
    qed
  qed
  show ?thesis
  proof (cases a)
    case (Inl e)
    with c assms have "w' = w1"
      by (simp add: download_layer_def Let_def bind_io_def)
    with c_eff show ?thesis by (auto intro: same_except_mono)
  next
    case (Inr u)
    with c assms have "decompress_layer ?g ?t w1 = (r, w')"
      by (simp add: download_layer_def Let_def bind_io_def)
    from decompress_layer_effect [OF this] c_eff show ?thesis
      using same_except_trans [of "{?g}" w w1 "{?g, ?t}" w'] by (simp add: insert_commute)
  qed
qed

lemma create_layer_json_ok:
  assumes "create_layer_json dir i parent lj True w = (Inr u, w')"
  shows "\<exists>kvs. json_loads lj = Inr (JObj kvs) \<and> dirs w' = dirs w
           \<and> same_except {path_join dir ''json''} w w'
           \<and> map_of (files w') (path_join dir ''json'')
               = Some (JsonText (JObj (layer_json_of i parent kvs)))"
proof (cases "json_loads lj")
  case (Inl e)
  with assms show ?thesis by (simp add: create_layer_json_def)
next
  case (Inr j)
  show ?thesis
  proof (cases j)
    case (JObj kvs)
    with Inr assms show ?thesis
      by (auto simp: create_layer_json_def Let_def py_pop_def py_setitem_def layer_json_of_def
          json_dumps_def write_file_def same_except_def update_conv lift_def bind_io_def ret_def
          split: if_splits)
  qed (use Inr assms in \<open>auto simp: create_layer_json_def py_pop_def bind_io_def lift_def\<close>)
qed

section \<open>Processing the layers\<close>

lemma bind_lift_Inr_fun: "bind_io (lift (Inr x)) f = f x"
  by (rule ext) simp

lemma process_layer_ok:
  assumes "process_layer E self l parent lj w = (Inr x, w')"
  shows "\<exists>d kvs. digest l = Some d
           \<and> x = sha256_hex E (parent @ [CHR 0x0A] @ d @ [CHR 0x0A])
           \<and> \<not> path_exists w (path_join (image_dir self) x)
           \<and> dirs w' = dirs w @ [path_join (image_dir self) x]
           \<and> same_except (layer_files (path_join (image_dir self) x)) w w'
           \<and> json_loads lj = Inr (JObj kvs)
           \<and> map_of (files w') (path_join (path_join (image_dir self) x) ''json'')
               = Some (JsonText (JObj (layer_json_of x parent kvs)))"
proof (cases "digest l")
  case None
  with assms show ?thesis by (simp add: process_layer_def layer_digest_def)
next
  case (Some d)
  define i where "i = sha256_hex E (parent @ [CHR 0x0A] @ d @ [CHR 0x0A])"
  define dir where "dir = path_join (image_dir self) i"
  have ld: "layer_digest l = Inr d" using Some by (simp add: layer_digest_def)
  have unfold: "process_layer E self l parent lj w =
      bind_io (mkdir dir)
        (\<lambda>_. bind_io (write_file (path_join dir ''VERSION'') (Plain ''1.0''))
        (\<lambda>_. bind_io (download_layer E self d dir (case urls l of None \<Rightarrow> [] | Some us \<Rightarrow> us))
        (\<lambda>_. bind_io (create_layer_json dir i parent lj True)
        (\<lambda>_. ret i)))) w"
    by (simp add: process_layer_def ld Let_def i_def dir_def bind_lift_Inr_fun)
  show ?thesis
  proof (cases "path_exists w dir")
    case True
    with assms unfold show ?thesis by (simp add: mkdir_def bind_io_def)
  next
    case False
    let ?w1 = "w\<lparr>dirs := dirs w @ [dir]\<rparr>"
    let ?w2 = "?w1\<lparr>files := AList.update (path_join dir ''VERSION'') (Plain ''1.0'') (files ?w1)\<rparr>"
    have s12: "process_layer E self l parent lj w =
        bind_io (download_layer E self d dir (case urls l of None \<Rightarrow> [] | Some us \<Rightarrow> us))
        (\<lambda>_. bind_io (create_layer_json dir i parent lj True)
        (\<lambda>_. ret i)) ?w2"
      using False by (simp add: unfold mkdir_def write_file_def bind_io_def)
    obtain a w3 where dl:
      "download_layer E self d dir (case urls l of None \<Rightarrow> [] | Some us \<Rightarrow> us) ?w2 = (a, w3)"
      by (cases "download_layer E self d dir (case urls l of None \<Rightarrow> [] | Some us \<Rightarrow> us) ?w2")
        blast
    note e3 = download_layer_effect [OF dl]
    show ?thesis
    proof (cases a)
      case (Inl e)
      with assms s12 dl show ?thesis by (simp add: bind_io_def)
    next
      case (Inr u)
      obtain b w4 where cj: "create_layer_json dir i parent lj True w3 = (b, w4)"
        by (cases "create_layer_json dir i parent lj True w3") blast
      show ?thesis
      proof (cases b)
        case (Inl e)
        with assms s12 dl Inr cj show ?thesis by (simp add: bind_io_def)
      next
        case r: (Inr v)
        with assms s12 dl Inr cj have x: "x = i" and w': "w' = w4"
          by (simp_all add: bind_io_def ret_def)
        from create_layer_json_ok [OF cj [unfolded r]] obtain kvs where
          k: "json_loads lj = Inr (JObj kvs)" "dirs w4 = dirs w3"
            "same_except {path_join dir ''json''} w3 w4"
            "map_of (files w4) (path_join dir ''json'')
               = Some (JsonText (JObj (layer_json_of i parent kvs)))"
          by blast
        have d12: "same_except {path_join dir ''VERSION''} w ?w2"
          by (simp add: same_except_def update_conv)
        have "same_except ({path_join dir ''VERSION''}
                \<union> {path_join dir ''layer_gzip.tar'', path_join dir ''layer.tar''}
                \<union> {path_join dir ''json''}) w w4"
          using d12 e3 k(3) by (blast intro: same_except_trans)
        then have se: "same_except (layer_files dir) w w4"
          by (rule same_except_mono) (auto simp: layer_files_def)
        have "dirs w4 = dirs w @ [dir]" using k(2) e3 by simp
        with se k Some False x w' show ?thesis
          by (auto simp: i_def dir_def)
      qed
    qed
  qed
qed

lemma bind_io_succeeds:
  "bind_io m f w = (Inr y, w') \<Longrightarrow> \<exists>x w1. m w = (Inr x, w1) \<and> f x w1 = (Inr y, w')"
  by (auto simp: bind_io_def split: prod.splits sum.splits)

lemma lift_succeeds: "lift r w = (Inr x, w1) \<Longrightarrow> r = Inr x \<and> w1 = w"
  by (simp add: lift_def)

lemma layer_digest_Inr: "layer_digest l = Inr d \<longleftrightarrow> digest l = Some d"
  by (auto simp: layer_digest_def split: option.splits)

lemma spec_layer_ids_range:
  "i \<in> set (spec_layer_ids H p ds) \<Longrightarrow> \<exists>s. i = H s"
  by (induction ds arbitrary: p) auto

lemma spec_layer_ids_length [simp]: "length (spec_layer_ids H p ds) = length ds"
  by (induction ds arbitrary: p) auto

lemma layer_files_disjoint:
  assumes "d \<noteq> []" "last d \<noteq> CHR ''/''" "d' \<noteq> []" "last d' \<noteq> CHR ''/''" "d \<noteq> d'"
  shows "layer_files d \<inter> layer_files d' = {}"
proof -
  have "d @ CHR ''/'' # x \<noteq> d' @ CHR ''/'' # y"
    if "CHR ''/'' \<notin> set x" "CHR ''/'' \<notin> set y" for x y
    using append_sep_inject [of d "CHR ''/''" x d' y] that assms(5) by blast
  then show ?thesis
    using assms by (auto simp: layer_files_def path_join_def)
qed

lemma plain_layer_dir:
  "plain_ids E \<Longrightarrow> i \<in> set (spec_layer_ids (sha256_hex E) p ds) \<Longrightarrow>
     path_join base i \<noteq> [] \<and> last (path_join base i) \<noteq> CHR ''/''"
  using spec_layer_ids_range [of i "sha256_hex E" p ds] layer_dir_plain [of i base]
  by (auto simp: plain_ids_def)

lemma layers_loop_ok:
  assumes plain: "plain_ids E"
  shows "layers_loop E self all cfg ls parent acc w = (Inr (top_id, acc'), w') \<Longrightarrow>
     \<exists>ds. map digest ls = map Some ds
        \<and> top_id = last (parent # spec_layer_ids (sha256_hex E) parent ds)
        \<and> acc' = acc @ map (\<lambda>i. i @ ''/layer.tar'') (spec_layer_ids (sha256_hex E) parent ds)
        \<and> dirs w' = dirs w @ map (path_join (image_dir self))
                                 (spec_layer_ids (sha256_hex E) parent ds)
        \<and> (\<forall>i \<in> set (spec_layer_ids (sha256_hex E) parent ds).
              path_join (image_dir self) i \<notin> set (dirs w))
        \<and> same_except (\<Union>i \<in> set (spec_layer_ids (sha256_hex E) parent ds).
                          layer_files (path_join (image_dir self) i)) w w'
        \<and> (\<forall>k < length ds. \<exists>kvs.
              json_loads (if digest (last all) = Some (ds ! k) then cfg else empty_json)
                = Inr (JObj kvs)
              \<and> map_of (files w')
                   (path_join (path_join (image_dir self)
                      (spec_layer_ids (sha256_hex E) parent ds ! k)) ''json'')
                  = Some (JsonText (JObj (layer_json_of
                      (spec_layer_ids (sha256_hex E) parent ds ! k)
                      ((parent # spec_layer_ids (sha256_hex E) parent ds) ! k) kvs))))"
proof (induction ls arbitrary: parent acc w)
  case Nil
  then show ?case by (simp add: ret_def same_except_refl)
next
  case (Cons l ls)
  let ?H = "sha256_hex E" and ?base = "image_dir self"
  from Cons.prems have "bind_io (lift (layer_digest (last all)))
       (\<lambda>d_last. bind_io (lift (layer_digest l))
       (\<lambda>d. bind_io (process_layer E self l parent
                       (if d_last = d then cfg else empty_json))
       (\<lambda>layer_id.
          layers_loop E self all cfg ls layer_id
            (acc @ [layer_id @ ''/layer.tar''])))) w = (Inr (top_id, acc'), w')"
    by simp
  from bind_io_succeeds [OF this] obtain dl w0 where
    a: "lift (layer_digest (last all)) w = (Inr dl, w0)"
    and b: "bind_io (lift (layer_digest l))
       (\<lambda>d. bind_io (process_layer E self l parent
                       (if dl = d then cfg else empty_json))
       (\<lambda>layer_id.
          layers_loop E self all cfg ls layer_id
            (acc @ [layer_id @ ''/layer.tar'']))) w0 = (Inr (top_id, acc'), w')"
    by blast
  from lift_succeeds [OF a] have dl: "digest (last all) = Some dl" and w0: "w0 = w"
    by (simp_all add: layer_digest_Inr)
  from bind_io_succeeds [OF b] obtain d w0' where
    c: "lift (layer_digest l) w0 = (Inr d, w0')"
    and e: "bind_io (process_layer E self l parent (if dl = d then cfg else empty_json))
       (\<lambda>layer_id.
          layers_loop E self all cfg ls layer_id
            (acc @ [layer_id @ ''/layer.tar''])) w0' = (Inr (top_id, acc'), w')"
    by blast
  from lift_succeeds [OF c] have d: "digest l = Some d" and w0': "w0' = w"
    by (simp_all add: layer_digest_Inr w0)
  from bind_io_succeeds [OF e] obtain i w1 where
    pl: "process_layer E self l parent (if dl = d then cfg else empty_json) w = (Inr i, w1)"
    and rest: "layers_loop E self all cfg ls i (acc @ [i @ ''/layer.tar'']) w1
                 = (Inr (top_id, acc'), w')"
    unfolding w0' by blast
  from process_layer_ok [OF pl] d obtain kvs where
    i: "i = ?H (parent @ [CHR 0x0A] @ d @ [CHR 0x0A])"
    and fresh: "\<not> path_exists w (path_join ?base i)"
    and dirs1: "dirs w1 = dirs w @ [path_join ?base i]"
    and se1: "same_except (layer_files (path_join ?base i)) w w1"
    and src: "json_loads (if dl = d then cfg else empty_json) = Inr (JObj kvs)"
    and jfile: "map_of (files w1) (path_join (path_join ?base i) ''json'')
                 = Some (JsonText (JObj (layer_json_of i parent kvs)))"
    by auto
  from Cons.IH [OF rest] obtain ds where
    ds: "map digest ls = map Some ds"
    and top_id: "top_id = last (i # spec_layer_ids ?H i ds)"
    and acc: "acc' = (acc @ [i @ ''/layer.tar''])
                       @ map (\<lambda>i. i @ ''/layer.tar'') (spec_layer_ids ?H i ds)"
    and dirs2: "dirs w' = dirs w1 @ map (path_join ?base) (spec_layer_ids ?H i ds)"
    and new: "\<forall>j \<in> set (spec_layer_ids ?H i ds). path_join ?base j \<notin> set (dirs w1)"
    and se2: "same_except (\<Union>j \<in> set (spec_layer_ids ?H i ds).
                          layer_files (path_join ?base j)) w1 w'"
    and jfiles: "\<forall>k < length ds. \<exists>kvs.
              json_loads (if digest (last all) = Some (ds ! k) then cfg else empty_json)
                = Inr (JObj kvs)
              \<and> map_of (files w')
                   (path_join (path_join ?base (spec_layer_ids ?H i ds ! k)) ''json'')
                  = Some (JsonText (JObj (layer_json_of (spec_layer_ids ?H i ds ! k)
                      ((i # spec_layer_ids ?H i ds) ! k) kvs)))"
    by blast
  let ?ids = "spec_layer_ids ?H parent (d # ds)"
  have ids: "?ids = i # spec_layer_ids ?H i ds" by (simp add: i)
  have i_plain: "path_join ?base i \<noteq> [] \<and> last (path_join ?base i) \<noteq> CHR ''/''"
    using plain layer_dir_plain [of i ?base] by (auto simp: plain_ids_def i)
  have keep: "map_of (files w') (path_join (path_join ?base i) ''json'')
                = map_of (files w1) (path_join (path_join ?base i) ''json'')"
  proof -
    have "path_join (path_join ?base i) ''json'' \<notin> layer_files (path_join ?base j)"
      if j: "j \<in> set (spec_layer_ids ?H i ds)" for j
    proof -
      have "path_join ?base j \<noteq> path_join ?base i"
        using new j dirs1 by auto
      with layer_files_disjoint [of "path_join ?base i" "path_join ?base j"]
        i_plain plain_layer_dir [OF plain j, of ?base]
      have "layer_files (path_join ?base i) \<inter> layer_files (path_join ?base j) = {}"
        by auto
      then show ?thesis by (auto simp: layer_files_def)
    qed
    with se2 show ?thesis by (auto simp: same_except_def)
  qed
  have c1: "map digest (l # ls) = map Some (d # ds)" using d ds by simp
  have c2: "top_id = last (parent # ?ids)" using top_id ids by simp
  have c3: "acc' = acc @ map (\<lambda>i. i @ ''/layer.tar'') ?ids" using acc ids by simp
  have c4: "dirs w' = dirs w @ map (path_join ?base) ?ids" using dirs1 dirs2 ids by simp
  have c5: "\<forall>j \<in> set ?ids. path_join ?base j \<notin> set (dirs w)"
    using new dirs1 fresh ids by (auto simp: path_exists_def)
  have c6: "same_except (\<Union>j \<in> set ?ids. layer_files (path_join ?base j)) w w'"
    using same_except_trans [OF se1 se2] ids by simp
  have c7: "\<exists>kvs. json_loads (if digest (last all) = Some ((d # ds) ! k) then cfg else empty_json)
                = Inr (JObj kvs)
              \<and> map_of (files w') (path_join (path_join ?base (?ids ! k)) ''json'')
                  = Some (JsonText (JObj (layer_json_of (?ids ! k) ((parent # ?ids) ! k) kvs)))"
    if k: "k < length (d # ds)" for k
  proof (cases k)
    case 0
    have "(if digest (last all) = Some d then cfg else empty_json)
            = (if dl = d then cfg else empty_json)"
      using dl by simp
    with src jfile keep 0 ids show ?thesis by auto
  next
    case (Suc k')
    with k have "k' < length ds" by simp
    with jfiles Suc ids show ?thesis by auto
  qed
  from c1 c2 c3 c4 c5 c6 c7 show ?case by blast
qed

lemma spec_layer_ids_nth:
  "k < length ds \<Longrightarrow>
     spec_layer_ids H p ds ! k
       = H ((if k = 0 then p else spec_layer_ids H p ds ! (k - 1))
              @ [CHR 0x0A] @ ds ! k @ [CHR 0x0A])"
proof (induction ds arbitrary: p k)
  case Nil
  then show ?case by simp
next
  case (Cons d ds)
  show ?case
  proof (cases k)
    case 0
    then show ?thesis by simp
  next
    case (Suc k')
    with Cons.prems have "k' < length ds" by simp
    from Cons.IH [OF this, of "H (p @ [CHR 0x0A] @ d @ [CHR 0x0A])"] Suc
    show ?thesis by (cases k') simp_all
  qed
qed

lemma process_layer_id:
  assumes "process_layer E self l parent lj w = (Inr x, w')"
  shows "\<exists>d. digest l = Some d \<and> x = sha256_hex E (parent @ [CHR 0x0A] @ d @ [CHR 0x0A])
           \<and> dirs w' = dirs w @ [path_join (image_dir self) x]"
  using process_layer_ok [OF assms] by blast

lemma layers_loop_ids:
  "layers_loop E self all cfg ls parent acc w = (Inr (top_id, acc'), w') \<Longrightarrow>
     \<exists>ds. map digest ls = map Some ds
        \<and> top_id = last (parent # spec_layer_ids (sha256_hex E) parent ds)
        \<and> acc' = acc @ map (\<lambda>i. i @ ''/layer.tar'') (spec_layer_ids (sha256_hex E) parent ds)
        \<and> dirs w' = dirs w @ map (path_join (image_dir self))
                                 (spec_layer_ids (sha256_hex E) parent ds)"
proof (induction ls arbitrary: parent acc w)
  case Nil
  then show ?case by (simp add: ret_def)
next
  case (Cons l ls)
  from Cons.prems have "bind_io (lift (layer_digest (last all)))
       (\<lambda>d_last. bind_io (lift (layer_digest l))
       (\<lambda>d. bind_io (process_layer E self l parent
                       (if d_last = d then cfg else empty_json))
       (\<lambda>layer_id.
          layers_loop E self all cfg ls layer_id
            (acc @ [layer_id @ ''/layer.tar''])))) w = (Inr (top_id, acc'), w')"
    by simp
  from bind_io_succeeds [OF this] obtain dl w0 where
    a: "lift (layer_digest (last all)) w = (Inr dl, w0)"
    and b: "bind_io (lift (layer_digest l))
       (\<lambda>d. bind_io (process_layer E self l parent
                       (if dl = d then cfg else empty_json))
       (\<lambda>layer_id.
          layers_loop E self all cfg ls layer_id
            (acc @ [layer_id @ ''/layer.tar'']))) w0 = (Inr (top_id, acc'), w')"
    by blast
  from lift_succeeds [OF a] have w0: "w0 = w" by simp
  from bind_io_succeeds [OF b] obtain d w0' where
    c: "lift (layer_digest l) w0 = (Inr d, w0')"
    and e: "bind_io (process_layer E self l parent (if dl = d then cfg else empty_json))
       (\<lambda>layer_id.
          layers_loop E self all cfg ls layer_id
            (acc @ [layer_id @ ''/layer.tar''])) w0' = (Inr (top_id, acc'), w')"
    by blast
  from lift_succeeds [OF c] have d: "digest l = Some d" and w0': "w0' = w"
    by (simp_all add: layer_digest_Inr w0)
  from bind_io_succeeds [OF e] obtain i w1 where
    pl: "process_layer E self l parent (if dl = d then cfg else empty_json) w = (Inr i, w1)"
    and rest: "layers_loop E self all cfg ls i (acc @ [i @ ''/layer.tar'']) w1
                 = (Inr (top_id, acc'), w')"
    unfolding w0' by blast
  from process_layer_id [OF pl] d have
    i: "i = sha256_hex E (parent @ [CHR 0x0A] @ d @ [CHR 0x0A])"
    and dirs1: "dirs w1 = dirs w @ [path_join (image_dir self) i]"
    by auto
  from Cons.IH [OF rest] obtain ds where
    "map digest ls = map Some ds"
    "top_id = last (i # spec_layer_ids (sha256_hex E) i ds)"
    "acc' = (acc @ [i @ ''/layer.tar''])
              @ map (\<lambda>i. i @ ''/layer.tar'') (spec_layer_ids (sha256_hex E) i ds)"
    "dirs w' = dirs w1 @ map (path_join (image_dir self)) (spec_layer_ids (sha256_hex E) i ds)"
    by blast
  with d i dirs1 have
    "map digest (l # ls) = map Some (d # ds)
     \<and> top_id = last (parent # spec_layer_ids (sha256_hex E) parent (d # ds))
     \<and> acc' = acc @ map (\<lambda>i. i @ ''/layer.tar'') (spec_layer_ids (sha256_hex E) parent (d # ds))
     \<and> dirs w' = dirs w @ map (path_join (image_dir self))
                              (spec_layer_ids (sha256_hex E) parent (d # ds))"
    by simp
  then show ?case by blast
qed

lemma process_layers_succeeds:
  assumes "process_layers E self layers cfg w = (Inr (mc, top_id), w')"
  shows "\<exists>acc. layers_loop E self layers cfg layers [] []
                 (w\<lparr>stdout := stdout w @ [Line (''Total '' @ str_nat (length layers) @ '' layers'')]\<rparr>)
               = (Inr (top_id, acc), w')
             \<and> mc = JObj [(''Config'', JStr (top_id @ ''.json'')),
                               (''RepoTags'', JArr [JStr (repo_tag self)]),
                               (''Layers'', JArr (map JStr acc))]"
proof -
  let ?w1 = "w\<lparr>stdout := stdout w @ [Line (''Total '' @ str_nat (length layers) @ '' layers'')]\<rparr>"
  obtain a w2 where l: "layers_loop E self layers cfg layers [] [] ?w1 = (a, w2)"
    by (cases "layers_loop E self layers cfg layers [] [] ?w1") blast
  show ?thesis
  proof (cases a)
    case (Inl e)
    with l assms show ?thesis by (simp add: process_layers_def bind_io_def print_def)
  next
    case (Inr r)
    with l assms show ?thesis
      by (cases r) (auto simp: process_layers_def bind_io_def print_def ret_def)
  qed
qed

lemma layer_json_of_id: "map_of (layer_json_of i p kvs) ''id'' = Some (JStr i)"
  by (simp add: layer_json_of_def Let_def update_conv)

lemma layer_json_of_parent:
  "map_of (layer_json_of i p kvs) ''parent''
     = (if p \<noteq> [] then Some (JStr p) else map_of kvs ''parent'')"
  by (simp add: layer_json_of_def Let_def update_conv delete_conv)

lemma layer_json_of_removed:
  "k \<in> {''history'', ''rootfs'', ''rootfS''} \<Longrightarrow> map_of (layer_json_of i p kvs) k = None"
  by (auto simp: layer_json_of_def Let_def update_conv delete_conv)

lemma layer_json_of_kept:
  "k \<notin> {''history'', ''rootfs'', ''rootfS'', ''id'', ''parent''} \<Longrightarrow>
     map_of (layer_json_of i p kvs) k = map_of kvs k"
  by (auto simp: layer_json_of_def Let_def update_conv delete_conv)

lemma empty_json_loads:
  "json_loads empty_json = Inr (JObj kvs) \<Longrightarrow> map_of kvs ''parent'' = None"
  by (auto simp: empty_json_def json_loads_def json_dumps_def)

text \<open>
  Claim C1. When \<^verbatim>\<open>process_layers\<close> returns, the layers have string digests
  \<open>ds\<close>, and the IDs it computed, which name the layer directories, the entries of
  \<open>Layers\<close> and the returned top ID, are the chain of the specification:
  the \<open>k\<close>-th is the hash of the previous ID (the empty string for the first), a
  newline, the \<open>k\<close>-th digest and a newline. They depend on the hash and the digests
  alone: any other run on the same layers with the same hash, whatever the registry, the
  puller, the config and the file system, gives the same entries and the same top ID.
\<close>

theorem layer_ids_chain:
  assumes "process_layers E self layers cfg w = (Inr (mc, top_id), w')"
  shows "\<exists>ds. map digest layers = map Some ds
           \<and> subscript mc ''Layers''
               = Inr (JArr (map (\<lambda>i. JStr (i @ ''/layer.tar''))
                              (spec_layer_ids (sha256_hex E) [] ds)))
           \<and> top_id = last ([] # spec_layer_ids (sha256_hex E) [] ds)
           \<and> dirs w' = dirs w @ map (path_join (image_dir self))
                                    (spec_layer_ids (sha256_hex E) [] ds)
           \<and> (\<forall>k < length ds.
                 spec_layer_ids (sha256_hex E) [] ds ! k
                   = sha256_hex E
                       ((if k = 0 then [] else spec_layer_ids (sha256_hex E) [] ds ! (k - 1))
                          @ [CHR 0x0A] @ ds ! k @ [CHR 0x0A]))
           \<and> (\<forall>E2 self2 cfg2 w2 mc2 top2 w2'.
                 sha256_hex E2 = sha256_hex E
                 \<and> process_layers E2 self2 layers cfg2 w2 = (Inr (mc2, top2), w2')
                 \<longrightarrow> subscript mc2 ''Layers'' = subscript mc ''Layers'' \<and> top2 = top_id)"
proof -
  have run: "\<exists>ds. map digest layers = map Some ds
           \<and> subscript c ''Layers''
               = Inr (JArr (map (\<lambda>i. JStr (i @ ''/layer.tar''))
                              (spec_layer_ids (sha256_hex F) [] ds)))
           \<and> t = last ([] # spec_layer_ids (sha256_hex F) [] ds)
           \<and> dirs v' = dirs v @ map (path_join (image_dir s))
                                    (spec_layer_ids (sha256_hex F) [] ds)"
    if "process_layers F s layers g v = (Inr (c, t), v')" for F s g v c t v'
  proof -
    from process_layers_succeeds [OF that] obtain acc where
      l: "layers_loop F s layers g layers [] []
            (v\<lparr>stdout := stdout v @ [Line (''Total '' @ str_nat (length layers) @ '' layers'')]\<rparr>)
            = (Inr (t, acc), v')"
      and c: "c = JObj [(''Config'', JStr (t @ ''.json'')),
                        (''RepoTags'', JArr [JStr (repo_tag s)]),
                        (''Layers'', JArr (map JStr acc))]"
      by blast
    from layers_loop_ids [OF l] c show ?thesis
      by (auto simp: subscript_def comp_def)
  qed
  from run [OF assms] obtain ds where
    ds: "map digest layers = map Some ds"
    and ls: "subscript mc ''Layers''
               = Inr (JArr (map (\<lambda>i. JStr (i @ ''/layer.tar''))
                              (spec_layer_ids (sha256_hex E) [] ds)))"
    and tp: "top_id = last ([] # spec_layer_ids (sha256_hex E) [] ds)"
    and dr: "dirs w' = dirs w @ map (path_join (image_dir self))
                                    (spec_layer_ids (sha256_hex E) [] ds)"
    by blast
  have again: "subscript mc2 ''Layers'' = subscript mc ''Layers'' \<and> top2 = top_id"
    if "sha256_hex E2 = sha256_hex E
        \<and> process_layers E2 self2 layers cfg2 w2 = (Inr (mc2, top2), w2')"
    for E2 self2 cfg2 w2 mc2 top2 w2'
  proof -
    from that have h: "sha256_hex E2 = sha256_hex E"
      and p: "process_layers E2 self2 layers cfg2 w2 = (Inr (mc2, top2), w2')"
      by simp_all
    from run [OF p] obtain ds2 where
      "map digest layers = map Some ds2"
      "subscript mc2 ''Layers''
               = Inr (JArr (map (\<lambda>i. JStr (i @ ''/layer.tar''))
                              (spec_layer_ids (sha256_hex E2) [] ds2)))"
      "top2 = last ([] # spec_layer_ids (sha256_hex E2) [] ds2)"
      by blast
    moreover from this(1) ds have "ds2 = ds"
      by (metis list.inj_map_strong option.inject)
    ultimately show ?thesis using ls tp h by simp
  qed
  from ds ls tp dr spec_layer_ids_nth [of _ ds "sha256_hex E" "[]"] again
  show ?thesis by blast
qed

theorem layer_ids_chain_witness:
  "fst (process_layers demo_env demo_self two_layers demo_config demo_world)
     = Inr (JObj [(''Config'', JStr ''id17.json''),
                  (''RepoTags'', JArr [JStr ''img:latest'']),
                  (''Layers'', JArr [JStr ''id13/layer.tar'', JStr ''id17/layer.tar''])],
            ''id17'')
   \<and> spec_layer_ids (sha256_hex demo_env) [] [''sha256:aaaa'', ''sha256:bbbb'']
       = [''id13'', ''id17'']
   \<and> dirs (snd (process_layers demo_env demo_self two_layers demo_config demo_world))
       = [''tmp_img_latest'', ''tmp_img_latest/id13'', ''tmp_img_latest/id17'']"
proof -
  let ?run = "process_layers demo_env demo_self two_layers demo_config demo_world"
  let ?mc = "JObj [(''Config'', JStr ''id17.json''),
                  (''RepoTags'', JArr [JStr ''img:latest'']),
                  (''Layers'', JArr [JStr ''id13/layer.tar'', JStr ''id17/layer.tar''])]"
  have r: "fst ?run = Inr (?mc, ''id17'')"
    by code_simp
  then have run: "?run = (Inr (?mc, ''id17''), snd ?run)"
    by (rule pairI)
  have ids: "spec_layer_ids (sha256_hex demo_env) [] [''sha256:aaaa'', ''sha256:bbbb'']
       = [''id13'', ''id17'']"
    by code_simp
  from layer_ids_chain [OF run] obtain ds where
    ds: "map digest two_layers = map Some ds"
    and dr: "dirs (snd ?run) = dirs demo_world
               @ map (path_join (image_dir demo_self)) (spec_layer_ids (sha256_hex demo_env) [] ds)"
    by blast
  from ds have "ds = [''sha256:aaaa'', ''sha256:bbbb'']"
    by (auto simp: two_layers_def map_eq_Cons_conv)
  with dr have "dirs (snd ?run) = dirs demo_world
               @ map (path_join (image_dir demo_self))
                   (spec_layer_ids (sha256_hex demo_env) [] [''sha256:aaaa'', ''sha256:bbbb''])"
    by (simp only:)
  also have "\<dots> = dirs demo_world @ map (path_join (image_dir demo_self)) [''id13'', ''id17'']"
    by (simp only: ids)
  also have "\<dots> = [''tmp_img_latest'', ''tmp_img_latest/id13'', ''tmp_img_latest/id17'']"
    by code_simp
  finally have "dirs (snd ?run)
       = [''tmp_img_latest'', ''tmp_img_latest/id13'', ''tmp_img_latest/id17'']" .
  with r ids show ?thesis by blast
qed

section \<open>The layer files\<close>

lemma process_layers_files:
  assumes plain: "plain_ids E"
    and run: "process_layers E self layers cfg w = (Inr (mc, top_id), w')"
  shows "\<exists>ds. map digest layers = map Some ds
           \<and> top_id = last ([] # spec_layer_ids (sha256_hex E) [] ds)
           \<and> (\<forall>k < length ds. \<exists>kvs.
                 json_loads (if digest (last layers) = Some (ds ! k) then cfg else empty_json)
                   = Inr (JObj kvs)
                 \<and> map_of (files w')
                      (path_join (path_join (image_dir self)
                         (spec_layer_ids (sha256_hex E) [] ds ! k)) ''json'')
                     = Some (JsonText (JObj (layer_json_of
                         (spec_layer_ids (sha256_hex E) [] ds ! k)
                         (([] # spec_layer_ids (sha256_hex E) [] ds) ! k) kvs))))"
proof -
  from process_layers_succeeds [OF run] obtain acc where
    "layers_loop E self layers cfg layers [] []
       (w\<lparr>stdout := stdout w @ [Line (''Total '' @ str_nat (length layers) @ '' layers'')]\<rparr>)
       = (Inr (top_id, acc), w')"
    by blast
  from layers_loop_ok [OF plain this] show ?thesis by blast
qed

text \<open>
  Claim C6, as amended. When \<^verbatim>\<open>process_layers\<close> returns, the \<open>json\<close> file of
  every layer is an object whose \<open>id\<close> is the layer's ID; for every layer but the
  first its \<open>parent\<close> is the ID of the layer before; the first layer gets no
  \<open>parent\<close> from the assembler: its object has none when the object it was built from
  has none, which is so whenever it was built from the placeholder, that is, whenever its
  digest differs from the last layer's.
\<close>

theorem layer_json_id_parent:
  assumes plain: "plain_ids E"
    and run: "process_layers E self layers cfg w = (Inr (mc, top_id), w')"
  shows "\<exists>ds. map digest layers = map Some ds
           \<and> (\<forall>k < length ds. \<exists>obj src.
                 map_of (files w')
                   (path_join (path_join (image_dir self)
                      (spec_layer_ids (sha256_hex E) [] ds ! k)) ''json'')
                   = Some (JsonText (JObj obj))
                 \<and> json_loads (if digest (last layers) = Some (ds ! k) then cfg else empty_json)
                     = Inr (JObj src)
                 \<and> map_of obj ''id'' = Some (JStr (spec_layer_ids (sha256_hex E) [] ds ! k))
                 \<and> (0 < k \<longrightarrow> map_of obj ''parent''
                       = Some (JStr (spec_layer_ids (sha256_hex E) [] ds ! (k - 1))))
                 \<and> (k = 0 \<and> map_of src ''parent'' = None \<longrightarrow> map_of obj ''parent'' = None)
                 \<and> (k = 0 \<and> digest (last layers) \<noteq> Some (ds ! k)
                       \<longrightarrow> map_of obj ''parent'' = None))"
proof -
  let ?ids = "spec_layer_ids (sha256_hex E) []"
  from process_layers_files [OF plain run] obtain ds where
    ds: "map digest layers = map Some ds"
    and fl: "\<forall>k < length ds. \<exists>kvs.
                 json_loads (if digest (last layers) = Some (ds ! k) then cfg else empty_json)
                   = Inr (JObj kvs)
                 \<and> map_of (files w')
                      (path_join (path_join (image_dir self) (?ids ds ! k)) ''json'')
                     = Some (JsonText (JObj (layer_json_of (?ids ds ! k)
                         (([] # ?ids ds) ! k) kvs)))"
    by blast
  have "\<exists>obj src.
          map_of (files w') (path_join (path_join (image_dir self) (?ids ds ! k)) ''json'')
            = Some (JsonText (JObj obj))
          \<and> json_loads (if digest (last layers) = Some (ds ! k) then cfg else empty_json)
              = Inr (JObj src)
          \<and> map_of obj ''id'' = Some (JStr (?ids ds ! k))
          \<and> (0 < k \<longrightarrow> map_of obj ''parent'' = Some (JStr (?ids ds ! (k - 1))))
          \<and> (k = 0 \<and> map_of src ''parent'' = None \<longrightarrow> map_of obj ''parent'' = None)
          \<and> (k = 0 \<and> digest (last layers) \<noteq> Some (ds ! k) \<longrightarrow> map_of obj ''parent'' = None)"
    if k: "k < length ds" for k
  proof -
    from fl k obtain kvs where
      src: "json_loads (if digest (last layers) = Some (ds ! k) then cfg else empty_json)
              = Inr (JObj kvs)"
      and jf: "map_of (files w') (path_join (path_join (image_dir self) (?ids ds ! k)) ''json'')
                 = Some (JsonText (JObj (layer_json_of (?ids ds ! k) (([] # ?ids ds) ! k) kvs)))"
      by blast
    let ?obj = "layer_json_of (?ids ds ! k) (([] # ?ids ds) ! k) kvs"
    have p_pos: "map_of ?obj ''parent'' = Some (JStr (?ids ds ! (k - 1)))" if "0 < k"
    proof -
      from that k have "k - 1 < length (?ids ds)" by simp
      then have "?ids ds ! (k - 1) \<in> set (?ids ds)" by (rule nth_mem)
      from spec_layer_ids_range [OF this] obtain s where "?ids ds ! (k - 1) = sha256_hex E s"
        by blast
      with plain have "?ids ds ! (k - 1) \<noteq> []"
        by (simp add: plain_ids_def)
      moreover from that have "([] # ?ids ds) ! k = ?ids ds ! (k - 1)"
        by (cases k) simp_all
      ultimately show ?thesis by (simp add: layer_json_of_parent)
    qed
    have p0: "map_of ?obj ''parent'' = map_of kvs ''parent''" if "k = 0"
      using that by (simp add: layer_json_of_parent)
    have p0': "map_of ?obj ''parent'' = None" if "k = 0" "digest (last layers) \<noteq> Some (ds ! k)"
      using that src p0 empty_json_loads [of kvs] by simp
    from jf src layer_json_of_id [of "?ids ds ! k" "([] # ?ids ds) ! k" kvs] p_pos p0 p0'
    show ?thesis by auto
  qed
  with ds show ?thesis by blast
qed

text \<open>
  Claim C4, as amended. When \<^verbatim>\<open>process_layers\<close> returns for a manifest with at
  least one layer, the config is a JSON object and the \<open>json\<close> file of the topmost
  layer has none of the keys \<open>history\<close>, \<open>rootfs\<close> and \<open>rootfS\<close>, compared as
  they are written; every other key, apart from \<open>id\<close> and \<open>parent\<close>, which the
  assembler sets, has the value it has in the config. So \<open>History\<close> or \<open>ROOTFS\<close>
  stay.
\<close>

theorem top_layer_json_keys:
  assumes plain: "plain_ids E"
    and run: "process_layers E self layers cfg w = (Inr (mc, top_id), w')"
    and some: "layers \<noteq> []"
  shows "\<exists>cfg_obj obj.
           cfg = JsonText (JObj cfg_obj)
           \<and> map_of (files w') (path_join (path_join (image_dir self) top_id) ''json'')
               = Some (JsonText (JObj obj))
           \<and> map_of obj ''history'' = None
           \<and> map_of obj ''rootfs'' = None
           \<and> map_of obj ''rootfS'' = None
           \<and> (\<forall>k. k \<notin> {''history'', ''rootfs'', ''rootfS'', ''id'', ''parent''}
                  \<longrightarrow> map_of obj k = map_of cfg_obj k)"
proof -
  let ?ids = "spec_layer_ids (sha256_hex E) []"
  from process_layers_files [OF plain run] obtain ds where
    ds: "map digest layers = map Some ds"
    and tp: "top_id = last ([] # ?ids ds)"
    and fl: "\<forall>k < length ds. \<exists>kvs.
                 json_loads (if digest (last layers) = Some (ds ! k) then cfg else empty_json)
                   = Inr (JObj kvs)
                 \<and> map_of (files w')
                      (path_join (path_join (image_dir self) (?ids ds ! k)) ''json'')
                     = Some (JsonText (JObj (layer_json_of (?ids ds ! k)
                         (([] # ?ids ds) ! k) kvs)))"
    by blast
  from ds some have ne: "ds \<noteq> []" by auto
  let ?n = "length ds - 1"
  from ne have n: "?n < length ds" by simp
  have "last (map digest layers) = last (map Some ds)"
    using ds by simp
  then have "digest (last layers) = Some (last ds)"
    using some ne by (simp add: last_map)
  then have lastd: "digest (last layers) = Some (ds ! ?n)"
    using ne by (simp add: last_conv_nth)
  have "?ids ds \<noteq> []"
    using ne by (cases ds) simp_all
  then have top: "top_id = ?ids ds ! ?n"
    using tp by (simp add: last_conv_nth)
  from fl n lastd obtain kvs where
    src: "json_loads cfg = Inr (JObj kvs)"
    and jf: "map_of (files w') (path_join (path_join (image_dir self) (?ids ds ! ?n)) ''json'')
               = Some (JsonText (JObj (layer_json_of (?ids ds ! ?n) (([] # ?ids ds) ! ?n) kvs)))"
    by fastforce
  from src have cfg: "cfg = JsonText (JObj kvs)"
    by (auto simp: json_loads_def split: bytes.splits)
  let ?obj = "layer_json_of (?ids ds ! ?n) (([] # ?ids ds) ! ?n) kvs"
  have "map_of ?obj ''history'' = None" "map_of ?obj ''rootfs'' = None"
    "map_of ?obj ''rootfS'' = None"
    by (simp_all add: layer_json_of_removed)
  moreover have "\<forall>k. k \<notin> {''history'', ''rootfs'', ''rootfS'', ''id'', ''parent''}
                  \<longrightarrow> map_of ?obj k = map_of kvs k"
    using layer_json_of_kept by blast
  ultimately show ?thesis using cfg jf top by blast
qed

theorem layer_json_id_parent_witness:
  "map_of (files (snd (process_layers demo_env demo_self two_layers demo_config demo_world)))
      ''tmp_img_latest/id17/json''
     = Some (JsonText (JObj [(''architecture'', JStr ''amd64''), (''History'', JArr []),
                             (''id'', JStr ''id17''), (''parent'', JStr ''id13'')]))
   \<and> map_of [(''architecture'', JStr ''amd64''), (''History'', JArr []),
              (''id'', JStr ''id17''), (''parent'', JStr ''id13'')] ''id''
       = Some (JStr ''id17'')
   \<and> map_of [(''architecture'', JStr ''amd64''), (''History'', JArr []),
              (''id'', JStr ''id17''), (''parent'', JStr ''id13'')] ''parent''
       = Some (JStr ''id13'')"
proof -
  let ?run = "process_layers demo_env demo_self two_layers demo_config demo_world"
  let ?mc = "JObj [(''Config'', JStr ''id17.json''),
                  (''RepoTags'', JArr [JStr ''img:latest'']),
                  (''Layers'', JArr [JStr ''id13/layer.tar'', JStr ''id17/layer.tar''])]"
  let ?C = "[(''architecture'', JStr ''amd64''), (''History'', JArr []),
             (''id'', JStr ''id17''), (''parent'', JStr ''id13'')]"
  let ?ids = "spec_layer_ids (sha256_hex demo_env) []"
  have "fst ?run = Inr (?mc, ''id17'')"
    by code_simp
  then have run: "?run = (Inr (?mc, ''id17''), snd ?run)"
    by (rule pairI)
  from layer_json_id_parent [OF plain_ids_demo run] obtain ds where
    ds: "map digest two_layers = map Some ds"
    and every: "\<forall>k < length ds. \<exists>obj src.
                 map_of (files (snd ?run))
                   (path_join (path_join (image_dir demo_self) (?ids ds ! k)) ''json'')
                   = Some (JsonText (JObj obj))
                 \<and> json_loads (if digest (last two_layers) = Some (ds ! k)
                                then demo_config else empty_json) = Inr (JObj src)
                 \<and> map_of obj ''id'' = Some (JStr (?ids ds ! k))
                 \<and> (0 < k \<longrightarrow> map_of obj ''parent'' = Some (JStr (?ids ds ! (k - 1))))
                 \<and> (k = 0 \<and> map_of src ''parent'' = None \<longrightarrow> map_of obj ''parent'' = None)
                 \<and> (k = 0 \<and> digest (last two_layers) \<noteq> Some (ds ! k)
                       \<longrightarrow> map_of obj ''parent'' = None)"
    by blast
  from ds have dsv: "ds = [''sha256:aaaa'', ''sha256:bbbb'']"
    by (auto simp: two_layers_def map_eq_Cons_conv)
  then have k1: "Suc 0 < length ds" by simp
  from every [rule_format, OF k1] obtain obj where
    f: "map_of (files (snd ?run))
          (path_join (path_join (image_dir demo_self) (?ids ds ! Suc 0)) ''json'')
          = Some (JsonText (JObj obj))"
    and i: "map_of obj ''id'' = Some (JStr (?ids ds ! Suc 0))"
    and p: "map_of obj ''parent'' = Some (JStr (?ids ds ! (Suc 0 - 1)))"
    by auto
  have path: "path_join (path_join (image_dir demo_self) (?ids ds ! Suc 0)) ''json''
                = ''tmp_img_latest/id17/json''"
    unfolding dsv by code_simp
  have n1: "?ids ds ! Suc 0 = ''id17''" unfolding dsv by code_simp
  have n0: "?ids ds ! (Suc 0 - 1) = ''id13''" unfolding dsv by code_simp
  have conc: "map_of (files (snd ?run)) ''tmp_img_latest/id17/json'' = Some (JsonText (JObj ?C))"
    by code_simp
  from f path conc have "obj = ?C" by simp
  with i p n1 n0 conc show ?thesis by (simp only:)
qed

theorem top_layer_json_keys_witness:
  "map_of (files (snd (process_layers demo_env demo_self two_layers demo_config demo_world)))
      ''tmp_img_latest/id17/json''
     = Some (JsonText (JObj [(''architecture'', JStr ''amd64''), (''History'', JArr []),
                             (''id'', JStr ''id17''), (''parent'', JStr ''id13'')]))
   \<and> map_of [(''architecture'', JStr ''amd64''), (''History'', JArr []),
              (''id'', JStr ''id17''), (''parent'', JStr ''id13'')] ''history'' = None
   \<and> map_of [(''architecture'', JStr ''amd64''), (''History'', JArr []),
              (''id'', JStr ''id17''), (''parent'', JStr ''id13'')] ''History''
       = Some (JArr [])"
proof -
  let ?run = "process_layers demo_env demo_self two_layers demo_config demo_world"
  let ?mc = "JObj [(''Config'', JStr ''id17.json''),
                  (''RepoTags'', JArr [JStr ''img:latest'']),
                  (''Layers'', JArr [JStr ''id13/layer.tar'', JStr ''id17/layer.tar''])]"
  let ?C = "[(''architecture'', JStr ''amd64''), (''History'', JArr []),
             (''id'', JStr ''id17''), (''parent'', JStr ''id13'')]"
  have "fst ?run = Inr (?mc, ''id17'')"
    by code_simp
  then have run: "?run = (Inr (?mc, ''id17''), snd ?run)"
    by (rule pairI)
  have some: "two_layers \<noteq> []"
    by (simp add: two_layers_def)
  from top_layer_json_keys [OF plain_ids_demo run some] obtain cfg_obj obj where
    c: "demo_config = JsonText (JObj cfg_obj)"
    and f: "map_of (files (snd ?run))
              (path_join (path_join (image_dir demo_self) ''id17'') ''json'')
              = Some (JsonText (JObj obj))"
    and h: "map_of obj ''history'' = None"
    and kept: "\<forall>k. k \<notin> {''history'', ''rootfs'', ''rootfS'', ''id'', ''parent''}
                  \<longrightarrow> map_of obj k = map_of cfg_obj k"
    by blast
  have path: "path_join (path_join (image_dir demo_self) ''id17'') ''json''
                = ''tmp_img_latest/id17/json''"
    by code_simp
  have conc: "map_of (files (snd ?run)) ''tmp_img_latest/id17/json'' = Some (JsonText (JObj ?C))"
    by code_simp
  from f path conc have obj: "obj = ?C" by simp
  from c have "map_of cfg_obj ''History'' = Some (JArr [])"
    by (auto simp: demo_config_def)
  moreover have "''History'' \<notin> {''history'', ''rootfs'', ''rootfS'', ''id'', ''parent''}"
    by simp
  ultimately have "map_of obj ''History'' = Some (JArr [])"
    using kept by simp
  with h conc obj show ?thesis by (simp only:)
qed

section \<open>Runs that contradict the specification\<close>

text \<open>
  Claim C6 as stated fails: for a manifest of one layer and a config with a \<open>parent\<close>
  key, the only layer is the base layer and its \<open>json\<close> keeps that key.
\<close>

theorem base_layer_parent_counterexample:
  "fst (process_layers demo_env demo_self one_layer parent_config demo_world)
     = Inr (JObj [(''Config'', JStr ''id13.json''),
                  (''RepoTags'', JArr [JStr ''img:latest'']),
                  (''Layers'', JArr [JStr ''id13/layer.tar''])],
            ''id13'')
   \<and> map_of (files (snd (process_layers demo_env demo_self one_layer parent_config demo_world)))
         ''tmp_img_latest/id13/json''
       = Some (JsonText (JObj [(''architecture'', JStr ''amd64''),
                               (''parent'', JStr ''sha256:0000''),
                               (''id'', JStr ''id13'')]))"
  by code_simp

text \<open>
  Claim C4 as stated fails: a config with the keys \<open>history\<close> and \<open>History\<close> loses
  the first and keeps the second in the topmost layer's \<open>json\<close>.
\<close>

theorem case_variant_kept_counterexample:
  "fst (process_layers demo_env demo_self two_layers demo_config demo_world)
     = Inr (JObj [(''Config'', JStr ''id17.json''),
                  (''RepoTags'', JArr [JStr ''img:latest'']),
                  (''Layers'', JArr [JStr ''id13/layer.tar'', JStr ''id17/layer.tar''])],
            ''id17'')
   \<and> map_of (files (snd (process_layers demo_env demo_self two_layers demo_config demo_world)))
         ''tmp_img_latest/id17/json''
       = Some (JsonText (JObj [(''architecture'', JStr ''amd64''),
                               (''History'', JArr []),
                               (''id'', JStr ''id17''),
                               (''parent'', JStr ''id13'')]))"
  by code_simp

text \<open>
  Claim C2 against the code: in a manifest whose two layers have the same digest, the
  first layer is not the last, yet its \<open>json\<close> is built from the downloaded config
  (here without \<open>history\<close>, with \<open>History\<close> and \<open>architecture\<close>) and not from
  the placeholder: the loop tells the last layer by its digest, not by its position.
\<close>

theorem twin_digest_gets_config:
  "fst (process_layers demo_env demo_self twin_layers demo_config demo_world)
     = Inr (JObj [(''Config'', JStr ''id17.json''),
                  (''RepoTags'', JArr [JStr ''img:latest'']),
                  (''Layers'', JArr [JStr ''id13/layer.tar'', JStr ''id17/layer.tar''])],
            ''id17'')
   \<and> map_of (files (snd (process_layers demo_env demo_self twin_layers demo_config demo_world)))
         ''tmp_img_latest/id13/json''
       = Some (JsonText (JObj [(''architecture'', JStr ''amd64''),
                               (''History'', JArr []),
                               (''id'', JStr ''id13'')]))"
  by code_simp

text \<open>
  Claim C5 against the code: a whole pull of an image with two layers ends with status 0,
  and the member \<open>manifest.json\<close> of the archive is the object with \<open>Config\<close>,
  \<open>RepoTags\<close> and \<open>Layers\<close> itself, not a one-element array holding it.
\<close>

theorem manifest_json_is_object:
  "fst (main full_env [''docker_pull.py'', ''img''] demo_world) = 0
   \<and> tar_member (snd (main full_env [''docker_pull.py'', ''img''] demo_world))
         ''library_img.tar'' ''/manifest.json''
       = Some (JsonText (JObj
           [(''Config'', JStr ''id17.json''),
            (''RepoTags'', JArr [JStr ''img:latest'']),
            (''Layers'', JArr [JStr ''id13/layer.tar'', JStr ''id17/layer.tar''])]))"
  by code_simp

end
